theory Spec2Isabelle
  imports Main "HOL-Library.Word"
begin

section \<open>The Cloud-Hypervisor process supervisor (src/ch/ch_process.c)\<close>

text \<open>
  The supervisor is C code that works on one domain object (\<open>virDomainObj\<close>) and talks to
  the outside world through calls into other modules of libvirt, the kernel and the
  hypervisor process. The embedding keeps both visible:
  \<^item> the domain object is a record, with the fields that ch_process.c reads or writes;
  \<^item> every call that leaves ch_process.c is an \<open>event\<close> appended to a trace, in program
    order, so that the order and the number of calls can be stated;
  \<^item> what such a call answers is not decided by ch_process.c: it is read from an
    environment \<open>env\<close>, a family of functions from the history (the trace up to and
    including the call) to the answer. Theorems quantify over every environment;
  \<^item> errors and warnings that the code reports are events too; \<open>VIR_DEBUG\<close> and
    \<open>VIR_INFO\<close> lines are left out;
  \<^item> where the source would dereference a NULL pointer the model appends
    \<open>E_NULL_dereference\<close> and leaves the object untouched (a loop that only records goes
    on, a function with a result returns -1), so that every function stays total and the
    fault stays visible in the trace.
\<close>

subsection \<open>Data model\<close>

type_synonym virBitmap = "nat set"

datatype virDomainState =
    VIR_DOMAIN_NOSTATE
  | VIR_DOMAIN_RUNNING
  | VIR_DOMAIN_BLOCKED
  | VIR_DOMAIN_PAUSED
  | VIR_DOMAIN_SHUTDOWN
  | VIR_DOMAIN_SHUTOFF
  | VIR_DOMAIN_CRASHED
  | VIR_DOMAIN_PMSUSPENDED

text \<open>
  The reason that goes with a state is a plain \<open>int\<close> in the domain object; each state has
  its own enumeration. The enumerators used by ch_process.c are declared in libvirt's
  public header (not under src/); they are given here with the values of that header.
  No theorem below depends on the numbers, only on the names.
\<close>

definition VIR_DOMAIN_SHUTOFF_UNKNOWN :: int where "VIR_DOMAIN_SHUTOFF_UNKNOWN = 0"
definition VIR_DOMAIN_SHUTOFF_FAILED :: int where "VIR_DOMAIN_SHUTOFF_FAILED = 6"
definition VIR_DOMAIN_SHUTOFF_DAEMON :: int where "VIR_DOMAIN_SHUTOFF_DAEMON = 8"
definition VIR_DOMAIN_PAUSED_SHUTTING_DOWN :: int where "VIR_DOMAIN_PAUSED_SHUTTING_DOWN = 8"

text \<open>The errno values of Linux that the code compares with.\<close>

definition ENOENT :: int where "ENOENT = 2"
definition EBUSY :: int where "EBUSY = 16"
definition ENOTDIR :: int where "ENOTDIR = 20"

datatype virErrorNumber =
    VIR_ERR_INTERNAL_ERROR
  | VIR_ERR_CONFIG_UNSUPPORTED
  | VIR_ERR_OPERATION_INVALID

datatype virCgroupController = VIR_CGROUP_CONTROLLER_CPU | VIR_CGROUP_CONTROLLER_CPUSET

datatype virCgroupThreadName =
    VIR_CGROUP_THREAD_VCPU
  | VIR_CGROUP_THREAD_EMULATOR
  | VIR_CGROUP_THREAD_IOTHREAD

datatype virCHThreadType =
    virCHThreadTypeEmulator
  | virCHThreadTypeVcpu
  | virCHThreadTypeIO
  | virCHThreadTypeUnknown

datatype virDomainCpuPlacementMode =
    VIR_DOMAIN_CPU_PLACEMENT_MODE_STATIC
  | VIR_DOMAIN_CPU_PLACEMENT_MODE_AUTO

datatype virDomainNumatuneMemMode =
    VIR_DOMAIN_NUMATUNE_MEM_STRICT
  | VIR_DOMAIN_NUMATUNE_MEM_PREFERRED
  | VIR_DOMAIN_NUMATUNE_MEM_INTERLEAVE
  | VIR_DOMAIN_NUMATUNE_MEM_RESTRICTIVE

text \<open>\<open>struct _virCHMonitorThreadInfo\<close>: the union is flattened, \<open>cpuid\<close> is
  \<open>vcpuInfo.cpuid\<close> and \<open>thrName\<close> the name of an emulator or I/O thread.\<close>

record virCHMonitorThreadInfo =
  thr_type :: virCHThreadType
  thr_tid :: int
  cpuid :: int
  thrName :: string

text \<open>\<open>struct _virCHMonitor\<close>: \<open>nthreads\<close> is the length of \<open>threads\<close>.\<close>

record virCHMonitor =
  socketpath :: string
  threads :: "virCHMonitorThreadInfo list"

record virDomainThreadSchedParam =
  policy :: int
  priority :: int

text \<open>A vCPU of the definition; \<open>vcpupriv_tid\<close> is \<open>CH_DOMAIN_VCPU_PRIVATE(vcpu)->tid\<close>.\<close>

record virDomainVcpuDef =
  online :: bool
  vcpu_cpumask :: "virBitmap option"
  vcpu_sched :: virDomainThreadSchedParam
  vcpupriv_tid :: int

text \<open>\<open>unsigned long long period\<close> and \<open>long long quota\<close> are 64-bit words; the code only
  tests them against zero and hands them on.\<close>

record virDomainCputune =
  period :: "64 word"
  quota :: "64 word"
  emulator_period :: "64 word"
  emulator_quota :: "64 word"
  iothread_period :: "64 word"
  iothread_quota :: "64 word"
  emulatorpin :: "virBitmap option"
  emulatorsched :: "virDomainThreadSchedParam option"

text \<open>The NUMA tuning of a definition, as far as ch_process.c asks about it: the number
  of guest NUMA nodes and the domain-wide memory mode (absent when none is configured).\<close>

record virDomainNuma =
  numa_nodes :: nat
  numa_memory_mode :: "virDomainNumatuneMemMode option"

record virDomainNetDef =
  queues :: nat

record virDomainDef =
  def_id :: int
  def_name :: string
  placement_mode :: virDomainCpuPlacementMode
  cpumask :: "virBitmap option"
  cputune :: virDomainCputune
  vcpus :: "virDomainVcpuDef list"
  nets :: "virDomainNetDef list"
  numa :: virDomainNuma

text \<open>A cgroup handle, as far as ch_process.c asks about it: the controllers it has.\<close>

record virCgroup =
  controllers :: "virCgroupController list"

record virCHDomainObjPrivate =
  monitor :: "virCHMonitor option"
  cgroup :: "virCgroup option"
  autoCpuset :: "virBitmap option"
  autoNodeset :: "virBitmap option"
  machineName :: "string option"
  pidfile :: "string option"

record virDomainObj =
  pid :: int
  def :: virDomainDef
  privateData :: virCHDomainObjPrivate
  state :: virDomainState
  reason :: int

record virCHDriver =
  stateDir :: string

subsection \<open>Calls that leave ch_process.c\<close>

datatype event =
    E_virReportError virErrorNumber
  | E_virReportSystemError
  | E_NULL_dereference
  | E_VIR_WARN string
  | E_VIR_ERROR string
  | E_virHostCPUHasBitmap
  | E_virHostCPUGetOnlineBitmap
  | E_virDomainNumatuneMaybeGetNodeset
  | E_virNumaNodesetToCPUset
  | E_virDomainNumatuneMaybeFormatNodeset
  | E_virCgroupNewThread virCgroupThreadName int
  | E_chSetupCgroupCpusetCpus virCgroupThreadName int virBitmap
  | E_virCgroupSetCpusetMems virCgroupThreadName int string
  | E_chSetupCgroupVcpuBW virCgroupThreadName int "64 word" "64 word"
  | E_virCgroupAddThread virCgroupThreadName int int
  | E_virCgroupRemove virCgroupThreadName int
  | E_virCgroupFree virCgroupThreadName int
  | E_virProcessSetAffinity int virBitmap
  | E_virProcessSetScheduler int int int
  | E_virCHMonitorGetIOThreads
  | E_virCHMonitorGetThreadInfo
  | E_virCHDomainHasVcpuPids
  | E_virCHMonitorRefreshThreadInfo
  | E_virCHMonitorGetInfo
  | E_virDomainObjSave
  | E_socket
  | E_connect string
  | E_perror string
  | E_close_socket
  | E_virCHMonitorBuildNetJson nat
  | E_virSocketSendMsgWithFD nat nat
  | E_close_fds nat nat
  | E_virSocketRecvHttpResponse nat
  | E_chHostdevPrepareDomainDevices
  | E_virCHMonitorNew
  | E_virCHMonitorCreateVM
  | E_virCHDomainGetMachineName
  | E_chSetupCgroup
  | E_chInterfaceStartDevices
  | E_virCHMonitorBootVM
  | E_chSetupGlobalCpuCgroup
  | E_virCHMonitorOpen
  | E_virCHDomainObjRestoreJob
  | E_virCHDomainObjBeginJob
  | E_virCHDomainObjEndJob
  | E_chHostdevUpdateActiveDomainDevices
  | E_chConnectCgroup
  | E_virCHDomainRemoveInactive
  | E_virCHDomainRemoveInactiveJob
  | E_virDomainObjEndAPI
  | E_virCHMonitorClose
  | E_chHostdevReAttachDomainDevices
  | E_chRemoveCgroup
  | E_g_usleep nat
  | E_unlink string

text \<open>
  The environment: what each call answers, given the history that ends with the call.
  \<open>ret_int\<close> is an \<open>int\<close> return value (also \<open>errno\<close> after a failed \<open>unlink\<close>, read at
  the same history), the other fields are the objects handed back through pointers.
\<close>

record env =
  ret_int :: "event list \<Rightarrow> int"
  ret_errno :: "event list \<Rightarrow> int"
  ret_bitmap :: "event list \<Rightarrow> virBitmap option"
  ret_string :: "event list \<Rightarrow> string option"
  ret_monitor :: "event list \<Rightarrow> virCHMonitor option"
  ret_threads :: "event list \<Rightarrow> virCHMonitorThreadInfo list"
  ret_iothreads :: "event list \<Rightarrow> 32 word list"
  ret_cgroup :: "event list \<Rightarrow> virCgroup option"
  ret_status :: "event list \<Rightarrow> string option"

record world =
  vm :: virDomainObj
  trace :: "event list"

definition call :: "event \<Rightarrow> world \<Rightarrow> world" where
  "call e w = w\<lparr>trace := trace w @ [e]\<rparr>"

definition set_priv :: "(virCHDomainObjPrivate \<Rightarrow> virCHDomainObjPrivate) \<Rightarrow> world \<Rightarrow> world" where
  "set_priv f w = w\<lparr>vm := (vm w)\<lparr>privateData := f (privateData (vm w))\<rparr>\<rparr>"

definition set_def :: "(virDomainDef \<Rightarrow> virDomainDef) \<Rightarrow> world \<Rightarrow> world" where
  "set_def f w = w\<lparr>vm := (vm w)\<lparr>def := f (def (vm w))\<rparr>\<rparr>"

text \<open>
  Modelled from the spec: \<open>virDomainObjSetState\<close> (domain_conf.c, not under src/), which
  "transitions state to" the given state "with the supplied reason".
\<close>

definition virDomainObjSetState :: "virDomainState \<Rightarrow> int \<Rightarrow> world \<Rightarrow> world" where
  "virDomainObjSetState s r w = w\<lparr>vm := (vm w)\<lparr>state := s, reason := r\<rparr>\<rparr>"

subsection \<open>Helpers of other modules that ch_process.c reads the domain through\<close>

text \<open>
  Modelled from the spec: \<open>virCgroupHasController\<close> (vircgroup.c, not under src/), the
  cgroup collaborator's "has-controller(kind)"; a NULL handle has no controller.
\<close>

definition virCgroupHasController :: "virCgroup option \<Rightarrow> virCgroupController \<Rightarrow> bool" where
  "virCgroupHasController cg c = (case cg of None \<Rightarrow> False | Some g \<Rightarrow> c \<in> set (controllers g))"

text \<open>
  Modelled from the spec: \<open>virBitmapEqual\<close> (virbitmap.c, not under src/), which decides
  whether a per-vCPU mask "differs from the domain-wide mask": two masks are equal when
  both are absent or both hold the same CPUs.
\<close>

definition virBitmapEqual :: "virBitmap option \<Rightarrow> virBitmap option \<Rightarrow> bool" where
  "virBitmapEqual b1 b2 = (b1 = b2)"

text \<open>
  Modelled from the spec: \<open>virDomainDefGetVcpusMax\<close> and \<open>virDomainDefGetVcpu\<close>
  (domain_conf.c, not under src/), the "vCPU roster" of the domain: its length, and the
  entry at an index, NULL beyond the end.
\<close>

definition virDomainDefGetVcpusMax :: "virDomainDef \<Rightarrow> nat" where
  "virDomainDefGetVcpusMax d = length (vcpus d)"

definition virDomainDefGetVcpu :: "virDomainDef \<Rightarrow> int \<Rightarrow> virDomainVcpuDef option" where
  "virDomainDefGetVcpu d i =
     (if 0 \<le> i \<and> nat i < length (vcpus d) then Some (vcpus d ! nat i) else None)"

text \<open>
  Modelled from the spec: \<open>virDomainNumaGetNodeCount\<close> and \<open>virDomainNumatuneGetMode\<close>
  (numa_conf.c, not under src/), which tell whether the domain is "single-NUMA-node" and
  has "strict memory binding". \<open>virDomainNumatuneGetMode\<close> returns 0 and the mode, or -1
  when no memory mode is configured: \<open>Some mode\<close> and \<open>None\<close> here.
\<close>

definition virDomainNumaGetNodeCount :: "virDomainNuma \<Rightarrow> nat" where
  "virDomainNumaGetNodeCount n = numa_nodes n"

definition virDomainNumatuneGetMode :: "virDomainNuma \<Rightarrow> virDomainNumatuneMemMode option" where
  "virDomainNumatuneGetMode n = numa_memory_mode n"

text \<open>
  Modelled from the spec: \<open>virDomainObjIsActive\<close> (domain_conf.h, not under src/): a domain
  "appears active" while its definition carries a running identifier.
\<close>

definition virDomainObjIsActive :: "virDomainObj \<Rightarrow> bool" where
  "virDomainObjIsActive obj = (def_id (def obj) \<noteq> - 1)"

definition virDomainObjGetState :: "virDomainObj \<Rightarrow> virDomainState \<times> int" where
  "virDomainObjGetState obj = (state obj, reason obj)"

subsection \<open>Sequencing of steps that may jump to a cleanup label\<close>

text \<open>
  A step answers whether it failed (the \<open>goto cleanup\<close> of the source) and the world it
  leaves. \<open>try_call env e\<close> is the C idiom \<open>if (f(...) < 0) goto cleanup;\<close>,
  \<open>skip\<close> a step whose guard is false, \<open>seq\<close> runs the second step only when the first
  one did not fail.
\<close>

type_synonym step = "world \<Rightarrow> bool \<times> world"

definition try_call :: "env \<Rightarrow> event \<Rightarrow> step" where
  "try_call env e w = (let w1 = call e w in (ret_int env (trace w1) < 0, w1))"

definition skip :: step where
  "skip w = (False, w)"

definition seq :: "step \<Rightarrow> step \<Rightarrow> step" where
  "seq f g w = (case f w of (True, w1) \<Rightarrow> (True, w1) | (False, w1) \<Rightarrow> g w1)"

subsection \<open>Resource placement: virCHProcessSetupPid and its callers\<close>

text \<open>\<open>virCHProcessGetAllCpuAffinity\<close> (lines 63-75): return code, \<open>*cpumapRet\<close>, world.\<close>

definition virCHProcessGetAllCpuAffinity :: "env \<Rightarrow> world \<Rightarrow> int \<times> virBitmap option \<times> world" where
  "virCHProcessGetAllCpuAffinity env w =
    (let w1 = call E_virHostCPUHasBitmap w
     in if ret_int env (trace w1) = 0 then (0, None, w1)
        else (let w2 = call E_virHostCPUGetOnlineBitmap w1
              in case ret_bitmap env (trace w2) of
                   None \<Rightarrow> (- 1, None, w2)
                 | Some m \<Rightarrow> (0, Some m, w2)))"

text \<open>
  \<open>virCHProcessInitCpuAffinity\<close> (lines 78-118, the variant for hosts with
  \<open>sched_setaffinity\<close>). \<open>virBitmapNewCopy\<close> is taken to succeed.
\<close>

definition virCHProcessInitCpuAffinity :: "env \<Rightarrow> world \<Rightarrow> int \<times> world" where
  "virCHProcessInitCpuAffinity env w =
    (if pid (vm w) = 0 then (- 1, call (E_virReportError VIR_ERR_INTERNAL_ERROR) w)
     else
       (case
          (if virDomainNumaGetNodeCount (numa (def (vm w))) \<le> 1
              \<and> virDomainNumatuneGetMode (numa (def (vm w))) = Some VIR_DOMAIN_NUMATUNE_MEM_STRICT
           then (let w1 = call E_virDomainNumatuneMaybeGetNodeset w
                 in if ret_int env (trace w1) < 0 then (True, None, w1)
                    else (let w2 = call E_virNumaNodesetToCPUset w1
                          in if ret_int env (trace w2) < 0 then (True, None, w2)
                             else (False, ret_bitmap env (trace w2), w2)))
           else (case emulatorpin (cputune (def (vm w))) of
                   Some m \<Rightarrow> (False, Some m, w)
                 | None \<Rightarrow>
                     (case virCHProcessGetAllCpuAffinity env w of
                        (r, cpumap, w1) \<Rightarrow> if r < 0 then (True, None, w1) else (False, cpumap, w1))))
        of
          (True, cpumapToSet, w1) \<Rightarrow> (- 1, w1)
        | (False, None, w1) \<Rightarrow> (0, w1)
        | (False, Some m, w1) \<Rightarrow>
            (case try_call env (E_virProcessSetAffinity (pid (vm w1)) m) w1 of
               (True, w2) \<Rightarrow> (- 1, w2)
             | (False, w2) \<Rightarrow> (0, w2))))"

text \<open>
  \<open>virCHProcessSetupPid\<close>, "Infer which cpumask shall be used" (lines 163-176):
  whether the step failed, \<open>use_cpumask\<close>, \<open>affinity_cpumask\<close>, world.
\<close>

definition SetupPid_infer_cpumask ::
  "env \<Rightarrow> virBitmap option \<Rightarrow> world \<Rightarrow> bool \<times> virBitmap option \<times> virBitmap option \<times> world" where
  "SetupPid_infer_cpumask env cpumask_arg w =
    (case cpumask_arg of
       Some m \<Rightarrow> (False, Some m, None, w)
     | None \<Rightarrow>
        (if placement_mode (def (vm w)) = VIR_DOMAIN_CPU_PLACEMENT_MODE_AUTO
         then (False, autoCpuset (privateData (vm w)), None, w)
         else (case cpumask (def (vm w)) of
                 Some m \<Rightarrow> (False, Some m, None, w)
               | None \<Rightarrow>
                   (case virCHProcessGetAllCpuAffinity env w of
                      (r, hostcpumap, w1) \<Rightarrow>
                        if r < 0 then (True, None, None, w1) else (False, None, hostcpumap, w1)))))"

text \<open>
  \<open>virCHProcessSetupPid\<close>, what is done inside the new sub-scope (lines 196-213): the
  cpuset restriction and the memory nodes when there is a cpuset controller, the
  bandwidth when one is asked for, and the move of the thread into the sub-scope.
\<close>

definition SetupPid_cgroup_settings ::
  "env \<Rightarrow> int \<Rightarrow> virCgroupThreadName \<Rightarrow> int \<Rightarrow> virBitmap option \<Rightarrow> string option
     \<Rightarrow> 64 word \<Rightarrow> 64 word \<Rightarrow> step" where
  "SetupPid_cgroup_settings env tid nameval idx use_cpumask mem_mask period_arg quota_arg w =
     seq (if virCgroupHasController (cgroup (privateData (vm w))) VIR_CGROUP_CONTROLLER_CPUSET
          then seq (case use_cpumask of
                      Some m \<Rightarrow> try_call env (E_chSetupCgroupCpusetCpus nameval idx m)
                    | None \<Rightarrow> skip)
                   (case mem_mask of
                      Some mm \<Rightarrow> try_call env (E_virCgroupSetCpusetMems nameval idx mm)
                    | None \<Rightarrow> skip)
          else skip)
    (seq (if period_arg \<noteq> 0 \<or> quota_arg \<noteq> 0
          then try_call env (E_chSetupCgroupVcpuBW nameval idx period_arg quota_arg)
          else skip)
         (try_call env (E_virCgroupAddThread nameval idx tid))) w"

text \<open>
  \<open>virCHProcessSetupPid\<close>, the cgroup part (lines 183-215): whether the step failed,
  whether the local \<open>cgroup\<close> is non-NULL (the sub-scope was created), world.
\<close>

definition SetupPid_cgroup ::
  "env \<Rightarrow> int \<Rightarrow> virCgroupThreadName \<Rightarrow> int \<Rightarrow> virBitmap option \<Rightarrow> 64 word \<Rightarrow> 64 word
     \<Rightarrow> world \<Rightarrow> bool \<times> bool \<times> world" where
  "SetupPid_cgroup env tid nameval idx use_cpumask period_arg quota_arg w =
    (let cg = cgroup (privateData (vm w)) in
     if virCgroupHasController cg VIR_CGROUP_CONTROLLER_CPU
        \<or> virCgroupHasController cg VIR_CGROUP_CONTROLLER_CPUSET
     then
       (case
          (if virDomainNumatuneGetMode (numa (def (vm w))) = Some VIR_DOMAIN_NUMATUNE_MEM_STRICT
           then (let w1 = call E_virDomainNumatuneMaybeFormatNodeset w
                 in (ret_int env (trace w1) < 0, ret_string env (trace w1), w1))
           else (False, None, w))
        of
          (True, mem_mask, w1) \<Rightarrow> (True, False, w1)
        | (False, mem_mask, w1) \<Rightarrow>
           (case try_call env (E_virCgroupNewThread nameval idx) w1 of
              (True, w2) \<Rightarrow> (True, False, w2)
            | (False, w2) \<Rightarrow>
               (case SetupPid_cgroup_settings env tid nameval idx use_cpumask mem_mask
                       period_arg quota_arg w2
                of (failed, w3) \<Rightarrow> (failed, True, w3))))
     else (False, False, w))"

text \<open>The \<open>cleanup:\<close> label of \<open>virCHProcessSetupPid\<close> (lines 231-238).\<close>

definition SetupPid_cleanup ::
  "virCgroupThreadName \<Rightarrow> int \<Rightarrow> bool \<Rightarrow> int \<Rightarrow> world \<Rightarrow> int \<times> world" where
  "SetupPid_cleanup nameval idx cgroup_created ret w =
    (if cgroup_created
     then (ret, call (E_virCgroupFree nameval idx)
                  (if ret < 0 then call (E_virCgroupRemove nameval idx) w else w))
     else (ret, w))"

text \<open>
  \<open>virCHProcessSetupPid\<close>, the "legacy affinity" and the scheduler (lines 220-228); the
  scheduler is not set for an emulator thread.
\<close>

definition SetupPid_affinity_sched ::
  "env \<Rightarrow> int \<Rightarrow> virCgroupThreadName \<Rightarrow> virBitmap option
     \<Rightarrow> virDomainThreadSchedParam option \<Rightarrow> step" where
  "SetupPid_affinity_sched env tid nameval affinity_cpumask sched =
     seq (case affinity_cpumask of
            Some m \<Rightarrow> try_call env (E_virProcessSetAffinity tid m)
          | None \<Rightarrow> skip)
         (case sched of
            Some sp \<Rightarrow>
              if nameval \<noteq> VIR_CGROUP_THREAD_EMULATOR
              then try_call env (E_virProcessSetScheduler tid (policy sp) (priority sp))
              else skip
          | None \<Rightarrow> skip)"

text \<open>\<open>virCHProcessSetupPid\<close> (lines 137-239). \<open>hostcpumap\<close> is what the source keeps in
  \<open>affinity_cpumask\<close> until line 217.\<close>

definition virCHProcessSetupPid ::
  "env \<Rightarrow> int \<Rightarrow> virCgroupThreadName \<Rightarrow> int \<Rightarrow> virBitmap option \<Rightarrow> 64 word \<Rightarrow> 64 word
     \<Rightarrow> virDomainThreadSchedParam option \<Rightarrow> world \<Rightarrow> int \<times> world" where
  "virCHProcessSetupPid env tid nameval idx cpumask_arg period_arg quota_arg sched w =
    (if (period_arg \<noteq> 0 \<or> quota_arg \<noteq> 0)
        \<and> \<not> virCgroupHasController (cgroup (privateData (vm w))) VIR_CGROUP_CONTROLLER_CPU
     then SetupPid_cleanup nameval idx False (- 1)
            (call (E_virReportError VIR_ERR_CONFIG_UNSUPPORTED) w)
     else
       (case SetupPid_infer_cpumask env cpumask_arg w of
          (True, use_cpumask, hostcpumap, w1) \<Rightarrow> SetupPid_cleanup nameval idx False (- 1) w1
        | (False, use_cpumask, hostcpumap, w1) \<Rightarrow>
           (case SetupPid_cgroup env tid nameval idx use_cpumask period_arg quota_arg w1 of
              (True, created, w2) \<Rightarrow> SetupPid_cleanup nameval idx created (- 1) w2
            | (False, created, w2) \<Rightarrow>
               (case SetupPid_affinity_sched env tid nameval
                       (case hostcpumap of None \<Rightarrow> use_cpumask | Some m \<Rightarrow> Some m) sched w2
                of
                  (True, w3) \<Rightarrow> SetupPid_cleanup nameval idx created (- 1) w3
                | (False, w3) \<Rightarrow> SetupPid_cleanup nameval idx created 0 w3))))"

text \<open>
  \<open>virCHProcessSetupIOThread\<close> (lines 241-254); the argument is \<open>iothread->iothread_id\<close>,
  an \<open>unsigned int\<close> that the call narrows to \<open>pid_t\<close> and to \<open>int\<close>.
\<close>

definition virCHProcessSetupIOThread :: "env \<Rightarrow> 32 word \<Rightarrow> world \<Rightarrow> int \<times> world" where
  "virCHProcessSetupIOThread env iothread_id w =
     virCHProcessSetupPid env (sint iothread_id) VIR_CGROUP_THREAD_IOTHREAD (sint iothread_id)
       (autoCpuset (privateData (vm w)))
       (iothread_period (cputune (def (vm w))))
       (iothread_quota (cputune (def (vm w))))
       None w"

text \<open>
  The loop of \<open>virCHProcessSetupIOThreads\<close> (lines 265-269): \<open>n\<close> iterations are left, over
  the entries of \<open>iothreads\<close> that are left. An iteration with no entry left reads through
  a NULL or past the end of what was handed back.
\<close>

fun SetupIOThreads_loop :: "env \<Rightarrow> nat \<Rightarrow> 32 word list \<Rightarrow> world \<Rightarrow> int \<times> world" where
  "SetupIOThreads_loop env 0 ts w = (0, w)"
| "SetupIOThreads_loop env (Suc n) [] w = (- 1, call E_NULL_dereference w)"
| "SetupIOThreads_loop env (Suc n) (t # ts) w =
     (case virCHProcessSetupIOThread env t w of
        (r, w1) \<Rightarrow> if r < 0 then (- 1, w1) else SetupIOThreads_loop env n ts w1)"

text \<open>
  \<open>virCHProcessSetupIOThreads\<close> (lines 256-271). The \<open>int\<close> result of
  \<open>virCHMonitorGetIOThreads\<close> is stored in the \<open>size_t niothreads\<close> without a test, so a
  negative result becomes a huge count; \<open>iothreads\<close> is then still the NULL of line 260.
\<close>

definition virCHProcessSetupIOThreads :: "env \<Rightarrow> world \<Rightarrow> int \<times> world" where
  "virCHProcessSetupIOThreads env w =
    (let w1 = call E_virCHMonitorGetIOThreads w;
         ret = ret_int env (trace w1);
         niothreads = unat (word_of_int ret :: 64 word);
         iothreads = (if ret < 0 then [] else ret_iothreads env (trace w1))
     in SetupIOThreads_loop env niothreads iothreads w1)"

text \<open>\<open>virCHProcessSetupEmulatorThread\<close> (lines 274-282).\<close>

definition virCHProcessSetupEmulatorThread :: "env \<Rightarrow> int \<Rightarrow> world \<Rightarrow> int \<times> world" where
  "virCHProcessSetupEmulatorThread env tid w =
     virCHProcessSetupPid env tid VIR_CGROUP_THREAD_EMULATOR 0
       (emulatorpin (cputune (def (vm w))))
       (emulator_period (cputune (def (vm w))))
       (emulator_quota (cputune (def (vm w))))
       (emulatorsched (cputune (def (vm w)))) w"

text \<open>The loop of \<open>virCHProcessSetupEmulatorThreads\<close> (lines 296-304) over the thread
  records left.\<close>

fun SetupEmulatorThreads_loop ::
  "env \<Rightarrow> virCHMonitorThreadInfo list \<Rightarrow> world \<Rightarrow> int \<times> world" where
  "SetupEmulatorThreads_loop env [] w = (0, w)"
| "SetupEmulatorThreads_loop env (t # ts) w =
     (if thr_type t = virCHThreadTypeEmulator
      then (case virCHProcessSetupEmulatorThread env (thr_tid t) w of
              (r, w1) \<Rightarrow> if r < 0 then (- 1, w1) else SetupEmulatorThreads_loop env ts w1)
      else SetupEmulatorThreads_loop env ts w)"

text \<open>\<open>virCHProcessSetupEmulatorThreads\<close> (lines 284-306).\<close>

definition virCHProcessSetupEmulatorThreads :: "env \<Rightarrow> world \<Rightarrow> int \<times> world" where
  "virCHProcessSetupEmulatorThreads env w =
    (case monitor (privateData (vm w)) of
       None \<Rightarrow> SetupEmulatorThreads_loop env [] (call E_NULL_dereference w)
     | Some mon \<Rightarrow> SetupEmulatorThreads_loop env (threads mon) w)"

text \<open>
  \<open>virCHProcessUpdateStatus\<close> (lines 356-378). The argument is the string under "state"
  of the info object, \<open>None\<close> when the object has no such member.
\<close>

definition virCHProcessUpdateStatus :: "string option \<Rightarrow> world \<Rightarrow> world" where
  "virCHProcessUpdateStatus st w =
    (case st of
       None \<Rightarrow> w
     | Some value \<Rightarrow>
        (if value = ''Created'' then virDomainObjSetState VIR_DOMAIN_NOSTATE 0 w
         else if value = ''Running'' then virDomainObjSetState VIR_DOMAIN_RUNNING 0 w
         else if value = ''Shutdown'' then virDomainObjSetState VIR_DOMAIN_SHUTDOWN 0 w
         else if value = ''Paused'' then virDomainObjSetState VIR_DOMAIN_PMSUSPENDED 0 w
         else w))"

text \<open>
  \<open>virCHProcessUpdateInfo\<close> (lines 380-395). \<open>virCHProcessUpdateConsole\<close> only rewrites
  the file paths of the console and serial devices, which are not part of the model.
\<close>

definition virCHProcessUpdateInfo :: "env \<Rightarrow> world \<Rightarrow> int \<times> world" where
  "virCHProcessUpdateInfo env w =
    (let w1 = call E_virCHMonitorGetInfo w
     in if ret_int env (trace w1) < 0 then (- 1, w1)
        else (0, virCHProcessUpdateStatus (ret_status env (trace w1)) w1))"

text \<open>
  \<open>virCHProcessSetupVcpu\<close> (lines 408-420). \<open>virCHDomainGetVcpuPid\<close> (ch_domain.c, not
  under src/) reads the thread id that \<open>virCHProcessSetupVcpuPids\<close> stored for the vCPU.
\<close>

definition virCHProcessSetupVcpu :: "env \<Rightarrow> nat \<Rightarrow> world \<Rightarrow> int \<times> world" where
  "virCHProcessSetupVcpu env vcpuid w =
    (case virDomainDefGetVcpu (def (vm w)) (int vcpuid) of
       None \<Rightarrow> (- 1, call E_NULL_dereference w)
     | Some vcpu \<Rightarrow>
         virCHProcessSetupPid env (vcpupriv_tid vcpu) VIR_CGROUP_THREAD_VCPU (int vcpuid)
           (vcpu_cpumask vcpu)
           (period (cputune (def (vm w))))
           (quota (cputune (def (vm w))))
           (Some (vcpu_sched vcpu)) w)"

text \<open>The loop of \<open>virCHProcessSetupVcpuPids\<close> (lines 431-444) over the thread records
  left: the thread id of each vCPU thread is stored in the roster.\<close>

fun SetupVcpuPids_loop :: "virCHMonitorThreadInfo list \<Rightarrow> world \<Rightarrow> world" where
  "SetupVcpuPids_loop [] w = w"
| "SetupVcpuPids_loop (t # ts) w =
     (if thr_type t \<noteq> virCHThreadTypeVcpu then SetupVcpuPids_loop ts w
      else (case virDomainDefGetVcpu (def (vm w)) (cpuid t) of
              None \<Rightarrow> SetupVcpuPids_loop ts (call E_NULL_dereference w)
            | Some vcpu \<Rightarrow>
                SetupVcpuPids_loop ts
                  (set_def (\<lambda>d. d\<lparr>vcpus := (vcpus d)[nat (cpuid t) := vcpu\<lparr>vcpupriv_tid := thr_tid t\<rparr>]\<rparr>) w)))"

text \<open>\<open>virCHProcessSetupVcpuPids\<close> (lines 422-447); the thread records are what
  \<open>virCHMonitorGetThreadInfo\<close> hands back.\<close>

definition virCHProcessSetupVcpuPids :: "env \<Rightarrow> world \<Rightarrow> int \<times> world" where
  "virCHProcessSetupVcpuPids env w =
    (let w1 = call E_virCHMonitorGetThreadInfo w
     in (0, SetupVcpuPids_loop (ret_threads env (trace w1)) w1))"

text \<open>The first loop of \<open>virCHProcessSetupVcpus\<close> (lines 475-487), run when there are no
  vCPU thread ids, over the indices left.\<close>

fun SetupVcpus_reject_loop :: "nat list \<Rightarrow> world \<Rightarrow> int \<times> world" where
  "SetupVcpus_reject_loop [] w = (0, w)"
| "SetupVcpus_reject_loop (i # is) w =
     (case virDomainDefGetVcpu (def (vm w)) (int i) of
        None \<Rightarrow> (- 1, call E_NULL_dereference w)
      | Some vcpu \<Rightarrow>
          if \<not> online vcpu then SetupVcpus_reject_loop is w
          else if vcpu_cpumask vcpu \<noteq> None
                  \<and> \<not> virBitmapEqual (cpumask (def (vm w))) (vcpu_cpumask vcpu)
          then (- 1, call (E_virReportError VIR_ERR_OPERATION_INVALID) w)
          else SetupVcpus_reject_loop is w)"

text \<open>The second loop of \<open>virCHProcessSetupVcpus\<close> (lines 492-500), over the indices left.\<close>

fun SetupVcpus_place_loop :: "env \<Rightarrow> nat list \<Rightarrow> world \<Rightarrow> int \<times> world" where
  "SetupVcpus_place_loop env [] w = (0, w)"
| "SetupVcpus_place_loop env (i # is) w =
     (case virDomainDefGetVcpu (def (vm w)) (int i) of
        None \<Rightarrow> (- 1, call E_NULL_dereference w)
      | Some vcpu \<Rightarrow>
          if \<not> online vcpu then SetupVcpus_place_loop env is w
          else (case virCHProcessSetupVcpu env i w of
                  (r, w1) \<Rightarrow> if r < 0 then (- 1, w1) else SetupVcpus_place_loop env is w1))"

text \<open>
  \<open>virCHProcessSetupVcpus\<close> (lines 455-503). \<open>virCHDomainHasVcpuPids\<close> (ch_domain.c, not
  under src/) is a call whose answer the environment gives.
\<close>

definition virCHProcessSetupVcpus :: "env \<Rightarrow> world \<Rightarrow> int \<times> world" where
  "virCHProcessSetupVcpus env w =
    (let maxvcpus = virDomainDefGetVcpusMax (def (vm w)) in
     if (period (cputune (def (vm w))) \<noteq> 0 \<or> quota (cputune (def (vm w))) \<noteq> 0)
        \<and> \<not> virCgroupHasController (cgroup (privateData (vm w))) VIR_CGROUP_CONTROLLER_CPU
     then (- 1, call (E_virReportError VIR_ERR_CONFIG_UNSUPPORTED) w)
     else
       (let w1 = snd (virCHProcessSetupVcpuPids env w);
            w2 = call E_virCHDomainHasVcpuPids w1
        in if ret_int env (trace w2) = 0
           then SetupVcpus_reject_loop [0 ..< maxvcpus] w2
           else SetupVcpus_place_loop env [0 ..< maxvcpus] w2))"

text \<open>
  Modelled from the spec: \<open>virCHMonitorRefreshThreadInfo\<close> (ch_monitor.c, not under src/),
  which "replaces any previous cache; returns a non-negative count or a failure indicator
  distinguishable from zero threads". A negative answer of the environment is the
  failure; otherwise the thread records it hands back replace the monitor's cache and
  their number is returned.
\<close>

definition virCHMonitorRefreshThreadInfo :: "env \<Rightarrow> world \<Rightarrow> int \<times> world" where
  "virCHMonitorRefreshThreadInfo env w =
    (let w1 = call E_virCHMonitorRefreshThreadInfo w
     in if ret_int env (trace w1) < 0 then (ret_int env (trace w1), w1)
        else (int (length (ret_threads env (trace w1))),
              set_priv (\<lambda>p. p\<lparr>monitor :=
                          map_option (\<lambda>mon. mon\<lparr>threads := ret_threads env (trace w1)\<rparr>) (monitor p)\<rparr>) w1))"

text \<open>\<open>virCHProcessSetupThreads\<close> (lines 505-534).\<close>

definition virCHProcessSetupThreads :: "env \<Rightarrow> world \<Rightarrow> int \<times> world" where
  "virCHProcessSetupThreads env w =
    (case virCHMonitorRefreshThreadInfo env w of
       (ret0, w0) \<Rightarrow>
         if ret0 \<le> 0 then (ret0, w0)
         else
           (case virCHProcessSetupEmulatorThreads env w0 of
              (ret1, w1) \<Rightarrow>
                (case (if ret1 = 0 then virCHProcessSetupIOThreads env w1 else (ret1, w1)) of
                   (ret2, w2) \<Rightarrow>
                     (case (if ret2 = 0 then virCHProcessSetupVcpus env w2 else (ret2, w2)) of
                        (ret3, w3) \<Rightarrow>
                          if ret3 = 0
                          then (let w4 = call E_virDomainObjSave w3 in (ret_int env (trace w4), w4))
                          else (ret3, w3)))))"

subsection \<open>Stop: virCHProcessStop and chProcessRemoveDomainStatus\<close>

text \<open>
  \<open>chProcessRemoveDomainStatus\<close> (lines 935-954): unlink the status XML, then the pid
  file when there is one; a failure other than a missing file is a warning.
\<close>

definition chProcessRemoveDomainStatus :: "env \<Rightarrow> virCHDriver \<Rightarrow> world \<Rightarrow> world" where
  "chProcessRemoveDomainStatus env driver w =
    (let file = stateDir driver @ ''/'' @ def_name (def (vm w)) @ ''.xml'';
         w1 = call (E_unlink file) w;
         w2 = (if ret_int env (trace w1) < 0 \<and> ret_errno env (trace w1) \<noteq> ENOENT
                  \<and> ret_errno env (trace w1) \<noteq> ENOTDIR
               then call (E_VIR_WARN ''Failed to remove domain XML'') w1 else w1)
     in case pidfile (privateData (vm w2)) of
          None \<Rightarrow> w2
        | Some pf \<Rightarrow>
            (let w3 = call (E_unlink pf) w2
             in if ret_int env (trace w3) < 0 \<and> ret_errno env (trace w3) \<noteq> ENOENT
                then call (E_VIR_WARN ''Failed to remove PID file'') w3 else w3))"

text \<open>
  The \<open>retry:\<close> loop of \<open>virCHProcessStop\<close> (lines 974-982). \<open>retries++ < 5\<close> is only
  evaluated when the removal answered \<open>-EBUSY\<close>; the counter is not read after the loop.
\<close>

function chRemoveCgroup_retry :: "env \<Rightarrow> int \<Rightarrow> world \<Rightarrow> world" where
  "chRemoveCgroup_retry env retries w =
    (let w1 = call E_chRemoveCgroup w;
         ret = ret_int env (trace w1)
     in if ret < 0 then
          (if ret = - EBUSY \<and> retries < 5
           then chRemoveCgroup_retry env (retries + 1) (call (E_g_usleep (200 * 1000)) w1)
           else call (E_VIR_WARN ''Failed to remove cgroup'') w1)
        else w1)"
  by pat_completeness auto
termination
  by (relation "measure (\<lambda>(env, retries, w). nat (5 - retries))") auto

declare chRemoveCgroup_retry.simps [simp del]

text \<open>\<open>virCHProcessStop\<close> (lines 956-991).\<close>

definition virCHProcessStop :: "env \<Rightarrow> virCHDriver \<Rightarrow> int \<Rightarrow> world \<Rightarrow> int \<times> world" where
  "virCHProcessStop env driver rsn w =
    (let w1 = (case monitor (privateData (vm w)) of
                 Some mon \<Rightarrow> set_priv (\<lambda>p. p\<lparr>monitor := None\<rparr>) (call E_virCHMonitorClose w)
               | None \<Rightarrow> w);
         w2 = call E_chHostdevReAttachDomainDevices w1;
         w3 = chRemoveCgroup_retry env 0 w2;
         w4 = w3\<lparr>vm := (vm w3)\<lparr>pid := - 1\<rparr>\<rparr>;
         w5 = set_def (\<lambda>d. d\<lparr>def_id := - 1\<rparr>) w4;
         w6 = chProcessRemoveDomainStatus env driver w5;
         w7 = virDomainObjSetState VIR_DOMAIN_SHUTOFF rsn w6
     in (0, w7))"

subsection \<open>Network device handoff: chProcessAddNetworkDevices\<close>

text \<open>\<open>sizeof(server_addr.sun_path)\<close> on Linux.\<close>

definition UNIX_PATH_MAX :: nat where "UNIX_PATH_MAX = 108"

text \<open>
  The loop of \<open>chProcessAddNetworkDevices\<close> (lines 578-628) over the device indices left;
  the answer is whether the loop jumped to \<open>err\<close>. A device with zero queue pairs gets
  one, written back into the definition.
\<close>

fun AddNetworkDevices_loop :: "env \<Rightarrow> nat list \<Rightarrow> world \<Rightarrow> bool \<times> world" where
  "AddNetworkDevices_loop env [] w = (False, w)"
| "AddNetworkDevices_loop env (i # is) w =
    (if length (nets (def (vm w))) \<le> i then (True, call E_NULL_dereference w)
     else
       (let net = nets (def (vm w)) ! i;
            fd_len = (if queues net = 0 then 1 else queues net);
            w0 = (if queues net = 0
                  then set_def (\<lambda>d. d\<lparr>nets := (nets d)[i := net\<lparr>queues := 1\<rparr>]\<rparr>) w
                  else w);
            w1 = call (E_virCHMonitorBuildNetJson i) w0
        in if ret_int env (trace w1) < 0
           then (True, call (E_virReportError VIR_ERR_INTERNAL_ERROR) w1)
           else
             (let w2 = call (E_virSocketSendMsgWithFD i fd_len) w1
              in if ret_int env (trace w2) < 0
                 then (True, call (E_virReportError VIR_ERR_INTERNAL_ERROR) w2)
                 else
                   (let w3 = call (E_close_fds i fd_len) w2;
                        w4 = call (E_virSocketRecvHttpResponse i) w3;
                        http_res = ret_int env (trace w4)
                    in if http_res < 0
                       then (True, call (E_VIR_ERROR ''Failed while receiving response from CH'') w4)
                       else if http_res \<noteq> 204 \<and> http_res \<noteq> 200
                       then (True, call (E_VIR_ERROR ''Unexpected response from CH'') w4)
                       else AddNetworkDevices_loop env is w4))))"

text \<open>\<open>chProcessAddNetworkDevices\<close> (lines 536-636); \<open>vmdef\<close> is \<open>vm->def\<close> at the call.\<close>

definition chProcessAddNetworkDevices :: "env \<Rightarrow> virCHMonitor \<Rightarrow> world \<Rightarrow> int \<times> world" where
  "chProcessAddNetworkDevices env mon w =
    (let w1 = call E_socket w
     in if ret_int env (trace w1) < 0 then (- 1, call E_virReportSystemError w1)
        else if UNIX_PATH_MAX \<le> length (socketpath mon)
        then (- 1, call (E_virReportError VIR_ERR_INTERNAL_ERROR) w1)
        else
          (let w2 = call (E_connect (socketpath mon)) w1
           in if ret_int env (trace w2) = - 1
              then (- 1, call E_close_socket (call (E_perror ''connect'') w2))
              else
                (case AddNetworkDevices_loop env [0 ..< length (nets (def (vm w2)))] w2 of
                   (True, w3) \<Rightarrow> (- 1, call E_close_socket w3)
                 | (False, w3) \<Rightarrow> (0, call E_close_socket w3))))"

subsection \<open>Start: virCHProcessStart\<close>

text \<open>More step combinators: a function that returns an \<open>int\<close> fails when it is
  negative; a step followed by \<open>virReportError\<close> when it fails; an action that cannot
  fail.\<close>

definition neg :: "(world \<Rightarrow> int \<times> world) \<Rightarrow> step" where
  "neg f w = (case f w of (r, w1) \<Rightarrow> (r < 0, w1))"

definition report :: "virErrorNumber \<Rightarrow> step \<Rightarrow> step" where
  "report err s w =
     (case s w of (True, w1) \<Rightarrow> (True, call (E_virReportError err) w1) | (False, w1) \<Rightarrow> (False, w1))"

definition always :: "(world \<Rightarrow> world) \<Rightarrow> step" where
  "always f w = (False, f w)"

text \<open>
  Lines 664-677 of \<open>virCHProcessStart\<close>: the first monitor connection.
  Modelled from the spec: \<open>virCHMonitorNew\<close> (ch_monitor.c, not under src/) "launches and
  attaches to a fresh process" and returns "a single connection object or a reported
  failure"; the process id it leaves in \<open>vm->pid\<close> is an answer of the environment.
\<close>

definition Start_connect_monitor :: "env \<Rightarrow> step" where
  "Start_connect_monitor env w =
    (case monitor (privateData (vm w)) of
       Some mon \<Rightarrow> (False, w)
     | None \<Rightarrow>
        (let w1 = call E_virCHMonitorNew w
         in case ret_monitor env (trace w1) of
              None \<Rightarrow> (True, call (E_virReportError VIR_ERR_INTERNAL_ERROR) w1)
            | Some mon \<Rightarrow>
                report VIR_ERR_INTERNAL_ERROR (try_call env E_virCHMonitorCreateVM)
                  (set_priv (\<lambda>p. p\<lparr>monitor := Some mon\<rparr>)
                     (w1\<lparr>vm := (vm w1)\<lparr>pid := ret_int env (trace w1)\<rparr>\<rparr>))))"

text \<open>Line 680: \<open>priv->machineName = virCHDomainGetMachineName(vm)\<close>.\<close>

definition Start_machine_name :: "env \<Rightarrow> world \<Rightarrow> world" where
  "Start_machine_name env w =
    (let w1 = call E_virCHDomainGetMachineName w
     in set_priv (\<lambda>p. p\<lparr>machineName := ret_string env (trace w1)\<rparr>) w1)"

text \<open>Lines 683-688: the network handoff through \<open>priv->monitor\<close>.\<close>

definition Start_add_network :: "env \<Rightarrow> step" where
  "Start_add_network env w =
    (case monitor (privateData (vm w)) of
       None \<Rightarrow> (True, call E_NULL_dereference w)
     | Some mon \<Rightarrow> neg (chProcessAddNetworkDevices env mon) w)"

text \<open>
  Modelled from the spec: \<open>chSetupCgroup\<close> and \<open>chConnectCgroup\<close> (ch_cgroup.c, not under
  src/): "a domain-level handle is created at start", and reconnection "derives" it
  again. On success the handle that the environment hands back becomes \<open>priv->cgroup\<close>.
\<close>

definition chSetupCgroup :: "env \<Rightarrow> step" where
  "chSetupCgroup env w =
    (let w1 = call E_chSetupCgroup w
     in if ret_int env (trace w1) < 0 then (True, w1)
        else (False, set_priv (\<lambda>p. p\<lparr>cgroup := ret_cgroup env (trace w1)\<rparr>) w1))"

definition chConnectCgroup :: "env \<Rightarrow> step" where
  "chConnectCgroup env w =
    (let w1 = call E_chConnectCgroup w
     in if ret_int env (trace w1) < 0 then (True, w1)
        else (False, set_priv (\<lambda>p. p\<lparr>cgroup := ret_cgroup env (trace w1)\<rparr>) w1))"

text \<open>Lines 659-694 of \<open>virCHProcessStart\<close>: every failure here is a \<open>goto cleanup\<close>.\<close>

definition Start_prepare :: "env \<Rightarrow> step" where
  "Start_prepare env =
     seq (try_call env E_chHostdevPrepareDomainDevices)
    (seq (Start_connect_monitor env)
    (seq (always (\<lambda>w. set_def (\<lambda>d. d\<lparr>def_id := pid (vm w)\<rparr>) w))
    (seq (always (Start_machine_name env))
    (seq (report VIR_ERR_INTERNAL_ERROR (Start_add_network env))
    (seq (chSetupCgroup env)
         (neg (virCHProcessInitCpuAffinity env)))))))"

text \<open>Lines 700-720 of \<open>virCHProcessStart\<close>: every failure here is a \<open>goto cleanup\<close>; the
  results of lines 706 and 708 are not looked at.\<close>

definition Start_boot :: "env \<Rightarrow> int \<Rightarrow> step" where
  "Start_boot env rsn =
     seq (report VIR_ERR_INTERNAL_ERROR (try_call env E_virCHMonitorBootVM))
    (seq (always (\<lambda>w. snd (virCHMonitorRefreshThreadInfo env w)))
    (seq (always (\<lambda>w. snd (virCHProcessUpdateInfo env w)))
    (seq (neg (virCHProcessSetupThreads env))
    (seq (try_call env E_chSetupGlobalCpuCgroup)
    (seq (always (virDomainObjSetState VIR_DOMAIN_RUNNING rsn))
         (try_call env E_virDomainObjSave))))))"

text \<open>The \<open>cleanup:\<close> label of \<open>virCHProcessStart\<close> (lines 724-728); \<open>ret\<close> is -1 at
  every jump to it.\<close>

definition Start_cleanup :: "env \<Rightarrow> virCHDriver \<Rightarrow> world \<Rightarrow> int \<times> world" where
  "Start_cleanup env driver w =
     (- 1, snd (virCHProcessStop env driver VIR_DOMAIN_SHUTOFF_FAILED w))"

text \<open>\<open>virCHProcessStart\<close> (lines 649-729). A failure of \<open>chInterfaceStartDevices\<close>
  (lines 697-698) is a plain \<open>return -1\<close>.\<close>

definition virCHProcessStart :: "env \<Rightarrow> virCHDriver \<Rightarrow> int \<Rightarrow> world \<Rightarrow> int \<times> world" where
  "virCHProcessStart env driver rsn w =
    (case Start_prepare env w of
       (True, w1) \<Rightarrow> Start_cleanup env driver w1
     | (False, w1) \<Rightarrow>
        (case try_call env E_chInterfaceStartDevices w1 of
           (True, w2) \<Rightarrow> (- 1, w2)
         | (False, w2) \<Rightarrow>
            (case Start_boot env rsn w2 of
               (True, w3) \<Rightarrow> Start_cleanup env driver w3
             | (False, w3) \<Rightarrow> (0, w3))))"

subsection \<open>Reconnection: virCHProcessReconnect\<close>

text \<open>
  \<open>virCHConnectMonitor\<close> (lines 731-747).
  Modelled from the spec: \<open>virCHMonitorOpen\<close> (ch_monitor.c, not under src/) "reattaches to
  an already-running process's control channel" and returns "a single connection object
  or a reported failure".
\<close>

definition virCHConnectMonitor :: "env \<Rightarrow> step" where
  "virCHConnectMonitor env w =
    (let w1 = call E_virCHMonitorOpen w;
         w2 = set_priv (\<lambda>p. p\<lparr>monitor := ret_monitor env (trace w1)\<rparr>) w1
     in (monitor (privateData (vm w2)) = None, w2))"

text \<open>\<open>virCHProcessUpdateState\<close> (lines 749-756).\<close>

definition virCHProcessUpdateState :: "env \<Rightarrow> world \<Rightarrow> int \<times> world" where
  "virCHProcessUpdateState env w =
    (case virCHProcessUpdateInfo env w of (r, w1) \<Rightarrow> if r < 0 then (- 1, w1) else (0, w1))"

text \<open>Lines 810-812: the machine name, an error when it is NULL.\<close>

definition Reconnect_machine_name :: "env \<Rightarrow> step" where
  "Reconnect_machine_name env w =
    (let w1 = Start_machine_name env w in (machineName (privateData (vm w1)) = None, w1))"

text \<open>Lines 801-818 of \<open>virCHProcessReconnect\<close>: every failure here is a \<open>goto error\<close>.\<close>

definition Reconnect_reattach :: "env \<Rightarrow> step" where
  "Reconnect_reattach env =
     seq (try_call env E_chHostdevUpdateActiveDomainDevices)
    (seq (virCHConnectMonitor env)
    (seq (always (\<lambda>w. set_def (\<lambda>d. d\<lparr>def_id := pid (vm w)\<rparr>) w))
    (seq (Reconnect_machine_name env)
    (seq (chConnectCgroup env)
         (neg (virCHProcessUpdateState env))))))"

text \<open>The \<open>cleanup:\<close> label of \<open>virCHProcessReconnect\<close> (lines 838-849).\<close>

definition Reconnect_cleanup :: "bool \<Rightarrow> world \<Rightarrow> world" where
  "Reconnect_cleanup jobStarted w =
    (let w1 =
       (if jobStarted
        then call E_virCHDomainObjEndJob
               (if \<not> virDomainObjIsActive (vm w) then call E_virCHDomainRemoveInactive w else w)
        else (if \<not> virDomainObjIsActive (vm w) then call E_virCHDomainRemoveInactiveJob w else w))
     in call E_virDomainObjEndAPI w1)"

text \<open>The \<open>error:\<close> label of \<open>virCHProcessReconnect\<close> (lines 851-862).\<close>

definition Reconnect_error :: "env \<Rightarrow> virCHDriver \<Rightarrow> bool \<Rightarrow> world \<Rightarrow> world" where
  "Reconnect_error env driver jobStarted w =
     Reconnect_cleanup jobStarted
       (if virDomainObjIsActive (vm w)
        then snd (virCHProcessStop env driver VIR_DOMAIN_SHUTOFF_UNKNOWN w)
        else w)"

text \<open>\<open>virCHProcessReconnect\<close> (lines 775-863), the task of one domain; the identity of
  the calling thread is not part of the model.\<close>

definition virCHProcessReconnect :: "env \<Rightarrow> virCHDriver \<Rightarrow> world \<Rightarrow> world" where
  "virCHProcessReconnect env driver w =
    (case try_call env E_virCHDomainObjBeginJob (call E_virCHDomainObjRestoreJob w) of
       (True, w1) \<Rightarrow> Reconnect_error env driver False w1
     | (False, w1) \<Rightarrow>
        (case Reconnect_reattach env w1 of
           (True, w2) \<Rightarrow> Reconnect_error env driver True w2
         | (False, w2) \<Rightarrow>
            (case virDomainObjGetState (vm w2) of
               (st, rsn) \<Rightarrow>
                 if st = VIR_DOMAIN_SHUTDOWN
                    \<or> (st = VIR_DOMAIN_PAUSED \<and> rsn = VIR_DOMAIN_PAUSED_SHUTTING_DOWN)
                 then Reconnect_cleanup True
                        (snd (virCHProcessStop env driver VIR_DOMAIN_SHUTOFF_DAEMON w2))
                 else
                   (case try_call env E_virDomainObjSave w2 of
                      (True, w3) \<Rightarrow> Reconnect_error env driver True w3
                    | (False, w3) \<Rightarrow> Reconnect_cleanup True w3))))"

subsection \<open>Notions used to state the properties\<close>

text \<open>\<open>k\<close> rounds of a cgroup removal that was answered "busy", each followed by the
  fixed sleep of 200 ms.\<close>

definition busy_rounds :: "nat \<Rightarrow> event list" where
  "busy_rounds k = concat (replicate k [E_chRemoveCgroup, E_g_usleep (200 * 1000)])"

text \<open>What \<open>virCHProcessStop\<close> has done when it reaches the \<open>retry:\<close> label.\<close>

definition stop_prefix :: "world \<Rightarrow> event list" where
  "stop_prefix w =
     trace w
     @ (case monitor (privateData (vm w)) of Some mon \<Rightarrow> [E_virCHMonitorClose] | None \<Rightarrow> [])
     @ [E_chHostdevReAttachDomainDevices]"

text \<open>The events of \<open>chProcessRemoveDomainStatus\<close>.\<close>

fun status_event :: "event \<Rightarrow> bool" where
  "status_event (E_unlink f) = True"
| "status_event (E_VIR_WARN m) =
     (m = ''Failed to remove domain XML'' \<or> m = ''Failed to remove PID file'')"
| "status_event _ = False"

text \<open>The events of the network device handoff (\<open>chProcessAddNetworkDevices\<close>).\<close>

fun handoff_event :: "event \<Rightarrow> bool" where
  "handoff_event E_socket = True"
| "handoff_event (E_connect p) = True"
| "handoff_event (E_virCHMonitorBuildNetJson i) = True"
| "handoff_event (E_virSocketSendMsgWithFD i n) = True"
| "handoff_event (E_close_fds i n) = True"
| "handoff_event (E_virSocketRecvHttpResponse i) = True"
| "handoff_event E_close_socket = True"
| "handoff_event _ = False"

fun affinity_event :: "event \<Rightarrow> bool" where
  "affinity_event (E_virProcessSetAffinity t m) = True"
| "affinity_event _ = False"

text \<open>
  The precedence of the CPU mask as the specification words it: the explicit mask;
  otherwise the automatically computed mask "when single-NUMA-node + strict memory
  binding"; otherwise the domain-wide mask; otherwise all online host CPUs (\<open>host\<close>).
\<close>

definition spec_effective_cpumask ::
  "virBitmap option \<Rightarrow> virDomainObj \<Rightarrow> virBitmap option \<Rightarrow> virBitmap option" where
  "spec_effective_cpumask cpumask_arg obj host =
    (case cpumask_arg of
       Some m \<Rightarrow> Some m
     | None \<Rightarrow>
        (if virDomainNumaGetNodeCount (numa (def obj)) \<le> 1
            \<and> virDomainNumatuneGetMode (numa (def obj)) = Some VIR_DOMAIN_NUMATUNE_MEM_STRICT
         then autoCpuset (privateData obj)
         else (case cpumask (def obj) of Some m \<Rightarrow> Some m | None \<Rightarrow> host)))"

text \<open>
  The precedence that lines 163-176 and 217-218 implement: the explicit mask; otherwise,
  when the CPU placement mode of the domain is "auto", the automatically computed mask
  (also when there is none); otherwise the domain-wide mask; otherwise what
  \<open>virCHProcessGetAllCpuAffinity\<close> answers at this point of the history.
\<close>

definition placement_cpumask :: "env \<Rightarrow> virBitmap option \<Rightarrow> world \<Rightarrow> virBitmap option" where
  "placement_cpumask env cpumask_arg w =
    (case cpumask_arg of
       Some m \<Rightarrow> Some m
     | None \<Rightarrow>
        (if placement_mode (def (vm w)) = VIR_DOMAIN_CPU_PLACEMENT_MODE_AUTO
         then autoCpuset (privateData (vm w))
         else (case cpumask (def (vm w)) of
                 Some m \<Rightarrow> Some m
               | None \<Rightarrow>
                   (if ret_int env (trace w @ [E_virHostCPUHasBitmap]) = 0 then None
                    else ret_bitmap env
                           (trace w @ [E_virHostCPUHasBitmap, E_virHostCPUGetOnlineBitmap])))))"





subsection \<open>Example domains and environments\<close>

definition example_def :: virDomainDef where
  "example_def =
     \<lparr>def_id = 4242, def_name = ''guest'',
      placement_mode = VIR_DOMAIN_CPU_PLACEMENT_MODE_STATIC,
      cpumask = Some {0, 1, 2, 3},
      cputune = \<lparr>period = 0, quota = 0, emulator_period = 0, emulator_quota = 0,
                 iothread_period = 0, iothread_quota = 0,
                 emulatorpin = None, emulatorsched = None\<rparr>,
      vcpus = [\<lparr>online = True, vcpu_cpumask = None,
                vcpu_sched = \<lparr>policy = 0, priority = 0\<rparr>, vcpupriv_tid = 0\<rparr>,
               \<lparr>online = True, vcpu_cpumask = None,
                vcpu_sched = \<lparr>policy = 0, priority = 0\<rparr>, vcpupriv_tid = 0\<rparr>],
      nets = [\<lparr>queues = 0\<rparr>, \<lparr>queues = 2\<rparr>],
      numa = \<lparr>numa_nodes = 1, numa_memory_mode = None\<rparr>\<rparr>"

definition example_monitor :: virCHMonitor where
  "example_monitor = \<lparr>socketpath = ''/run/ch/guest.sock'', threads = []\<rparr>"

definition example_vm :: virDomainObj where
  "example_vm =
     \<lparr>pid = 4242, def = example_def,
      privateData =
        \<lparr>monitor = Some example_monitor,
         cgroup = Some \<lparr>controllers = [VIR_CGROUP_CONTROLLER_CPU, VIR_CGROUP_CONTROLLER_CPUSET]\<rparr>,
         autoCpuset = None, autoNodeset = None,
         machineName = Some ''ch-guest'', pidfile = None\<rparr>,
      state = VIR_DOMAIN_RUNNING, reason = 1\<rparr>"

definition example_world :: world where
  "example_world = \<lparr>vm = example_vm, trace = []\<rparr>"

definition example_driver :: virCHDriver where
  "example_driver = \<lparr>stateDir = ''/run/ch''\<rparr>"

text \<open>An environment in which every call succeeds and hands back nothing.\<close>

definition env_quiet :: env where
  "env_quiet =
     \<lparr>ret_int = (\<lambda>h. 0), ret_errno = (\<lambda>h. 0), ret_bitmap = (\<lambda>h. None),
      ret_string = (\<lambda>h. None), ret_monitor = (\<lambda>h. None), ret_threads = (\<lambda>h. []),
      ret_iothreads = (\<lambda>h. []), ret_cgroup = (\<lambda>h. None), ret_status = (\<lambda>h. None)\<rparr>"

text \<open>An environment in which the removal of the cgroup is always answered "busy".\<close>

definition env_busy :: env where
  "env_busy = env_quiet\<lparr>ret_int := (\<lambda>h. if last h = E_chRemoveCgroup then - EBUSY else 0)\<rparr>"

text \<open>The example domain with a bandwidth period and a cgroup without the CPU controller.\<close>

definition example_world_no_cpu :: world where
  "example_world_no_cpu =
     example_world\<lparr>vm := example_vm
       \<lparr>def := example_def\<lparr>cputune := (cputune example_def)\<lparr>period := 100000\<rparr>\<rparr>,
        privateData := (privateData example_vm)
          \<lparr>cgroup := Some \<lparr>controllers = [VIR_CGROUP_CONTROLLER_CPUSET]\<rparr>\<rparr>\<rparr>\<rparr>"

text \<open>An environment in which the refresh of the thread inventory fails.\<close>

definition env_refresh_fails :: env where
  "env_refresh_fails =
     env_quiet\<lparr>ret_int := (\<lambda>h. if last h = E_virCHMonitorRefreshThreadInfo then - 1 else 0)\<rparr>"

text \<open>An environment in which reconnection finds the hypervisor in state "Shutdown", and
  one in which the info object has no "state" member.\<close>

definition env_reports_shutdown :: env where
  "env_reports_shutdown =
     env_quiet\<lparr>ret_monitor := (\<lambda>h. Some example_monitor),
               ret_string := (\<lambda>h. Some ''ch-guest''),
               ret_status := (\<lambda>h. Some ''Shutdown'')\<rparr>"

definition env_reports_nothing :: env where
  "env_reports_nothing =
     env_quiet\<lparr>ret_monitor := (\<lambda>h. Some example_monitor),
               ret_string := (\<lambda>h. Some ''ch-guest'')\<rparr>"

text \<open>The example domain as a restarted daemon finds it: no monitor yet; and the same
  domain recorded as paused while shutting down.\<close>

definition example_world_found :: world where
  "example_world_found =
     example_world\<lparr>vm := example_vm
       \<lparr>privateData := (privateData example_vm)\<lparr>monitor := None, cgroup := None\<rparr>\<rparr>\<rparr>"

definition example_world_found_paused :: world where
  "example_world_found_paused =
     example_world_found\<lparr>vm := (vm example_world_found)
       \<lparr>state := VIR_DOMAIN_PAUSED, reason := VIR_DOMAIN_PAUSED_SHUTTING_DOWN\<rparr>\<rparr>"

text \<open>An event that is neither part of the network handoff nor the boot command.\<close>

definition other_event :: "event \<Rightarrow> bool" where
  "other_event e = (\<not> handoff_event e \<and> e \<noteq> E_virCHMonitorBootVM)"

text \<open>\<open>extends P w w'\<close>: the world \<open>w'\<close> continues the history of \<open>w\<close>, by events that
  all satisfy \<open>P\<close>; \<open>keeps P f\<close>: whatever \<open>f\<close> returns, it leaves such a world.\<close>

definition extends :: "(event \<Rightarrow> bool) \<Rightarrow> world \<Rightarrow> world \<Rightarrow> bool" where
  "extends P w w' = (\<exists>evs. trace w' = trace w @ evs \<and> list_all P evs)"

definition keeps :: "(event \<Rightarrow> bool) \<Rightarrow> (world \<Rightarrow> 'a \<times> world) \<Rightarrow> bool" where
  "keeps P f = (\<forall>w r w'. f w = (r, w') \<longrightarrow> extends P w w')"

text \<open>The example domain before it is started, and an environment in which every step of a
  start succeeds: the hypervisor process gets pid 4242, answers 204 to every add-net
  request, and has no thread to report yet.\<close>

definition example_world_off :: world where
  "example_world_off =
     \<lparr>vm = \<lparr>pid = - 1, def = example_def\<lparr>def_id := - 1\<rparr>,
             privateData = \<lparr>monitor = None, cgroup = None, autoCpuset = None,
                            autoNodeset = None, machineName = None, pidfile = None\<rparr>,
             state = VIR_DOMAIN_SHUTOFF, reason = 0\<rparr>,
      trace = []\<rparr>"

fun http_response_event :: "event \<Rightarrow> bool" where
  "http_response_event (E_virSocketRecvHttpResponse i) = True"
| "http_response_event _ = False"

definition env_start :: env where
  "env_start =
     \<lparr>ret_int = (\<lambda>h. if last h = E_virCHMonitorNew then 4242
                      else if http_response_event (last h) then 204
                      else if last h = E_virHostCPUHasBitmap then 1 else 0),
      ret_errno = (\<lambda>h. 0),
      ret_bitmap = (\<lambda>h. Some {0, 1, 2, 3}),
      ret_string = (\<lambda>h. Some ''ch-guest''),
      ret_monitor = (\<lambda>h. Some example_monitor),
      ret_threads = (\<lambda>h. []),
      ret_iothreads = (\<lambda>h. []),
      ret_cgroup = (\<lambda>h. Some \<lparr>controllers = [VIR_CGROUP_CONTROLLER_CPU, VIR_CGROUP_CONTROLLER_CPUSET]\<rparr>),
      ret_status = (\<lambda>h. Some ''Running'')\<rparr>"

text \<open>The same environment, except that bringing up the host-side network devices fails.\<close>

definition env_netdev_fails :: env where
  "env_netdev_fails =
     env_start\<lparr>ret_int := (\<lambda>h. if last h = E_chInterfaceStartDevices then - 1
                                else ret_int env_start h)\<rparr>"

text \<open>An event that is not an affinity call.\<close>

definition no_affinity :: "event \<Rightarrow> bool" where
  "no_affinity e = (\<not> affinity_event e)"

text \<open>The example domain with strict memory binding on its single NUMA node, an
  automatically computed CPU set, and static CPU placement.\<close>

definition example_world_numa :: world where
  "example_world_numa =
     example_world\<lparr>vm := example_vm
       \<lparr>def := example_def\<lparr>numa := \<lparr>numa_nodes = 1,
                                       numa_memory_mode = Some VIR_DOMAIN_NUMATUNE_MEM_STRICT\<rparr>\<rparr>,
        privateData := (privateData example_vm)\<lparr>autoCpuset := Some {4, 5}\<rparr>\<rparr>\<rparr>"




text \<open>An environment in which reconnection finds the hypervisor in state "Paused".\<close>

definition env_reports_paused :: env where
  "env_reports_paused = env_reports_nothing\<lparr>ret_status := (\<lambda>h. Some ''Paused'')\<rparr>"


section \<open>Properties\<close>

subsection \<open>Stop\<close>

lemma vm_call [simp]: "vm (call e w) = vm w"
  by (simp add: call_def)

lemma trace_call [simp]: "trace (call e w) = trace w @ [e]"
  by (simp add: call_def)

lemma trace_set_priv [simp]: "trace (set_priv f w) = trace w"
  by (simp add: set_priv_def)

lemma trace_set_def [simp]: "trace (set_def f w) = trace w"
  by (simp add: set_def_def)

lemma trace_virDomainObjSetState [simp]: "trace (virDomainObjSetState s r w) = trace w"
  by (simp add: virDomainObjSetState_def)

lemma vm_chRemoveCgroup_retry [simp]: "vm (chRemoveCgroup_retry env n w) = vm w"
proof (induction env n w rule: chRemoveCgroup_retry.induct)
  case (1 env retries w)
  then show ?case
    by (subst chRemoveCgroup_retry.simps) (auto simp: Let_def)
qed

lemma vm_chProcessRemoveDomainStatus [simp]:
  "vm (chProcessRemoveDomainStatus env driver w) = vm w"
  by (simp add: chProcessRemoveDomainStatus_def Let_def split: option.splits)

lemma virCHProcessStop_vm:
  "vm (snd (virCHProcessStop env driver rsn w)) =
     (vm w)\<lparr>pid := - 1,
             def := (def (vm w))\<lparr>def_id := - 1\<rparr>,
             privateData := (privateData (vm w))\<lparr>monitor := None\<rparr>,
             state := VIR_DOMAIN_SHUTOFF,
             reason := rsn\<rparr>"
  by (cases "monitor (privateData (vm w))")
     (simp_all add: virCHProcessStop_def Let_def set_priv_def set_def_def
        virDomainObjSetState_def)

text \<open>
  C2. Whatever the environment answers (cgroup removal, unlink of the status file and
  of the pid file), and for any reason, \<open>virCHProcessStop\<close> returns 0, and on return the
  domain is in state Shutoff with the supplied reason, and its process identifier
  (\<open>vm->pid\<close> and \<open>vm->def->id\<close>) is cleared to -1.
\<close>

theorem C2_stop_always_succeeds:
  "fst (virCHProcessStop env driver rsn w) = 0
   \<and> state (vm (snd (virCHProcessStop env driver rsn w))) = VIR_DOMAIN_SHUTOFF
   \<and> reason (vm (snd (virCHProcessStop env driver rsn w))) = rsn
   \<and> pid (vm (snd (virCHProcessStop env driver rsn w))) = - 1
   \<and> def_id (def (vm (snd (virCHProcessStop env driver rsn w)))) = - 1"
  by (simp add: virCHProcessStop_vm) (simp add: virCHProcessStop_def Let_def)


lemma busy_rounds_Suc: "busy_rounds (Suc k) = [E_chRemoveCgroup, E_g_usleep (200 * 1000)] @ busy_rounds k"
  by (simp add: busy_rounds_def)

lemma busy_rounds_0: "busy_rounds 0 = []"
  by (simp add: busy_rounds_def)

lemma chRemoveCgroup_retry_trace:
  "\<exists>k. int k \<le> max 0 (5 - retries)
     \<and> (\<forall>j<k. ret_int env (trace w @ busy_rounds j @ [E_chRemoveCgroup]) = - EBUSY)
     \<and> (int k < 5 - retries \<longrightarrow>
          ret_int env (trace w @ busy_rounds k @ [E_chRemoveCgroup]) \<noteq> - EBUSY)
     \<and> trace (chRemoveCgroup_retry env retries w) =
          trace w @ busy_rounds k @ [E_chRemoveCgroup]
            @ (if ret_int env (trace w @ busy_rounds k @ [E_chRemoveCgroup]) < 0
               then [E_VIR_WARN ''Failed to remove cgroup''] else [])"
proof (induction env retries w rule: chRemoveCgroup_retry.induct)
  case (1 env retries w)
  let ?r = "ret_int env (trace w @ [E_chRemoveCgroup])"
  show ?case
  proof (cases "?r = - EBUSY \<and> retries < 5")
    case True
    let ?w' = "call (E_g_usleep (200 * 1000)) (call E_chRemoveCgroup w)"
    have neg: "?r < 0" using True by (simp add: EBUSY_def)
    have neg': "ret_int env (trace (call E_chRemoveCgroup w)) < 0" using neg by simp
    have True': "ret_int env (trace (call E_chRemoveCgroup w)) = - EBUSY \<and> retries < 5"
      using True by simp
    from "1.IH" [OF refl refl neg' True']
    obtain k where k: "int k \<le> max 0 (5 - (retries + 1))"
      and busy: "\<forall>j<k. ret_int env (trace ?w' @ busy_rounds j @ [E_chRemoveCgroup]) = - EBUSY"
      and last: "int k < 5 - (retries + 1) \<longrightarrow>
          ret_int env (trace ?w' @ busy_rounds k @ [E_chRemoveCgroup]) \<noteq> - EBUSY"
      and tr: "trace (chRemoveCgroup_retry env (retries + 1) ?w') =
          trace ?w' @ busy_rounds k @ [E_chRemoveCgroup]
            @ (if ret_int env (trace ?w' @ busy_rounds k @ [E_chRemoveCgroup]) < 0
               then [E_VIR_WARN ''Failed to remove cgroup''] else [])"
      by auto
    have unf: "chRemoveCgroup_retry env retries w = chRemoveCgroup_retry env (retries + 1) ?w'"
      using True neg by (subst chRemoveCgroup_retry.simps) (simp add: Let_def)
    have shift: "\<And>j. trace ?w' @ busy_rounds j = trace w @ busy_rounds (Suc j)"
      by (simp add: busy_rounds_Suc)
    have b: "\<forall>j<Suc k. ret_int env (trace w @ busy_rounds j @ [E_chRemoveCgroup]) = - EBUSY"
    proof (intro allI impI)
      fix j assume "j < Suc k"
      show "ret_int env (trace w @ busy_rounds j @ [E_chRemoveCgroup]) = - EBUSY"
      proof (cases j)
        case 0
        then show ?thesis using True by (simp add: busy_rounds_0)
      next
        case (Suc j')
        then have "j' < k" using \<open>j < Suc k\<close> by simp
        then show ?thesis using busy Suc by (simp add: busy_rounds_Suc)
      qed
    qed
    show ?thesis
      apply (rule exI [of _ "Suc k"])
      using k True b last tr unf
      by (simp add: busy_rounds_Suc)
  next
    case False
    have unf: "chRemoveCgroup_retry env retries w =
        (if ?r < 0 then call (E_VIR_WARN ''Failed to remove cgroup'') (call E_chRemoveCgroup w)
         else call E_chRemoveCgroup w)"
      using False by (subst chRemoveCgroup_retry.simps) (auto simp: Let_def)
    show ?thesis
      apply (rule exI [of _ 0])
      using False unf by (auto simp: busy_rounds_0)
  qed
qed


lemma chProcessRemoveDomainStatus_trace:
  "\<exists>post. trace (chProcessRemoveDomainStatus env driver w) = trace w @ post
     \<and> list_all status_event post"
  by (simp add: chProcessRemoveDomainStatus_def Let_def split: option.splits)

lemma virCHProcessStop_trace:
  "\<exists>k post. k \<le> 5
     \<and> (\<forall>j<k. ret_int env (stop_prefix w @ busy_rounds j @ [E_chRemoveCgroup]) = - EBUSY)
     \<and> (k < 5 \<longrightarrow> ret_int env (stop_prefix w @ busy_rounds k @ [E_chRemoveCgroup]) \<noteq> - EBUSY)
     \<and> trace (snd (virCHProcessStop env driver rsn w)) =
          stop_prefix w @ busy_rounds k @ [E_chRemoveCgroup]
          @ (if ret_int env (stop_prefix w @ busy_rounds k @ [E_chRemoveCgroup]) < 0
             then [E_VIR_WARN ''Failed to remove cgroup''] else [])
          @ post
     \<and> list_all status_event post"
proof -
  define w2 where "w2 = call E_chHostdevReAttachDomainDevices
     (case monitor (privateData (vm w)) of
        Some mon \<Rightarrow> set_priv (\<lambda>p. p\<lparr>monitor := None\<rparr>) (call E_virCHMonitorClose w)
      | None \<Rightarrow> w)"
  define w5 where "w5 = set_def (\<lambda>d. d\<lparr>def_id := - 1\<rparr>)
     ((chRemoveCgroup_retry env 0 w2)\<lparr>vm := (vm (chRemoveCgroup_retry env 0 w2))\<lparr>pid := - 1\<rparr>\<rparr>)"
  have pre: "trace w2 = stop_prefix w"
    by (simp add: w2_def stop_prefix_def split: option.splits)
  have tr5: "trace w5 = trace (chRemoveCgroup_retry env 0 w2)"
    by (simp add: w5_def)
  have stop: "trace (snd (virCHProcessStop env driver rsn w)) =
      trace (chProcessRemoveDomainStatus env driver w5)"
    by (simp add: virCHProcessStop_def Let_def w5_def w2_def)
  from chRemoveCgroup_retry_trace [of 0 env w2]
  obtain k where k: "k \<le> 5"
    and busy: "\<forall>j<k. ret_int env (stop_prefix w @ busy_rounds j @ [E_chRemoveCgroup]) = - EBUSY"
    and last: "k < 5 \<longrightarrow> ret_int env (stop_prefix w @ busy_rounds k @ [E_chRemoveCgroup]) \<noteq> - EBUSY"
    and tr: "trace (chRemoveCgroup_retry env 0 w2) =
          stop_prefix w @ busy_rounds k @ [E_chRemoveCgroup]
          @ (if ret_int env (stop_prefix w @ busy_rounds k @ [E_chRemoveCgroup]) < 0
             then [E_VIR_WARN ''Failed to remove cgroup''] else [])"
    unfolding pre by auto
  from chProcessRemoveDomainStatus_trace [of env driver w5]
  obtain post where post: "trace (chProcessRemoveDomainStatus env driver w5) = trace w5 @ post"
    and ev: "list_all status_event post"
    by blast
  show ?thesis
    apply (rule exI [of _ k], rule exI [of _ post])
    using k busy last ev by (simp add: stop post tr5 tr)
qed

lemma chProcessRemoveDomainStatus_unlink:
  "\<exists>post. trace (chProcessRemoveDomainStatus env driver w) = trace w @ post
     \<and> list_all status_event post
     \<and> E_unlink (stateDir driver @ ''/'' @ def_name (def (vm w)) @ ''.xml'') \<in> set post"
  by (simp add: chProcessRemoveDomainStatus_def Let_def split: option.splits)

lemma virCHProcessStop_events:
  "\<exists>k post. k \<le> 5
     \<and> trace (snd (virCHProcessStop env driver rsn w)) =
          stop_prefix w @ busy_rounds k @ [E_chRemoveCgroup]
          @ (if ret_int env (stop_prefix w @ busy_rounds k @ [E_chRemoveCgroup]) < 0
             then [E_VIR_WARN ''Failed to remove cgroup''] else [])
          @ post
     \<and> list_all status_event post
     \<and> E_unlink (stateDir driver @ ''/'' @ def_name (def (vm w)) @ ''.xml'') \<in> set post"
proof -
  define w2 where "w2 = call E_chHostdevReAttachDomainDevices
     (case monitor (privateData (vm w)) of
        Some mon \<Rightarrow> set_priv (\<lambda>p. p\<lparr>monitor := None\<rparr>) (call E_virCHMonitorClose w)
      | None \<Rightarrow> w)"
  define w5 where "w5 = set_def (\<lambda>d. d\<lparr>def_id := - 1\<rparr>)
     ((chRemoveCgroup_retry env 0 w2)\<lparr>vm := (vm (chRemoveCgroup_retry env 0 w2))\<lparr>pid := - 1\<rparr>\<rparr>)"
  have pre: "trace w2 = stop_prefix w"
    by (simp add: w2_def stop_prefix_def split: option.splits)
  have tr5: "trace w5 = trace (chRemoveCgroup_retry env 0 w2)"
    by (simp add: w5_def)
  have name: "def_name (def (vm w5)) = def_name (def (vm w))"
    by (simp add: w5_def w2_def set_def_def set_priv_def split: option.splits)
  have stop: "trace (snd (virCHProcessStop env driver rsn w)) =
      trace (chProcessRemoveDomainStatus env driver w5)"
    by (simp add: virCHProcessStop_def Let_def w5_def w2_def)
  from chRemoveCgroup_retry_trace [of 0 env w2]
  obtain k where k: "k \<le> 5"
    and tr: "trace (chRemoveCgroup_retry env 0 w2) =
          stop_prefix w @ busy_rounds k @ [E_chRemoveCgroup]
          @ (if ret_int env (stop_prefix w @ busy_rounds k @ [E_chRemoveCgroup]) < 0
             then [E_VIR_WARN ''Failed to remove cgroup''] else [])"
    unfolding pre by auto
  from chProcessRemoveDomainStatus_unlink [of env driver w5]
  obtain post where post: "trace (chProcessRemoveDomainStatus env driver w5) = trace w5 @ post"
    and ev: "list_all status_event post"
    and ul: "E_unlink (stateDir driver @ ''/'' @ def_name (def (vm w)) @ ''.xml'') \<in> set post"
    unfolding name by blast
  show ?thesis
    apply (rule exI [of _ k], rule exI [of _ post])
    using k ev ul by (simp add: stop post tr5 tr)
qed

text \<open>
  C4. In \<open>virCHProcessStop\<close> the removal of the cgroup is attempted \<open>k + 1\<close> times with
  \<open>k \<le> 5\<close>: each of the first \<open>k\<close> attempts was answered \<open>-EBUSY\<close> and is followed by the
  fixed sleep of 200 ms; the loop stops before the fifth retry only when the answer is
  not \<open>-EBUSY\<close>. When the last attempt failed (the bound is used up, or the failure is
  another one) a warning is logged. Then Stop goes on with the status files, returns 0
  and leaves the domain in Shutoff.
\<close>

theorem C4_cgroup_removal_bounded_retry:
  "\<exists>k post. k \<le> 5
     \<and> (\<forall>j<k. ret_int env (stop_prefix w @ busy_rounds j @ [E_chRemoveCgroup]) = - EBUSY)
     \<and> (k < 5 \<longrightarrow> ret_int env (stop_prefix w @ busy_rounds k @ [E_chRemoveCgroup]) \<noteq> - EBUSY)
     \<and> trace (snd (virCHProcessStop env driver rsn w)) =
          stop_prefix w @ busy_rounds k @ [E_chRemoveCgroup]
          @ (if ret_int env (stop_prefix w @ busy_rounds k @ [E_chRemoveCgroup]) < 0
             then [E_VIR_WARN ''Failed to remove cgroup''] else [])
          @ post
     \<and> list_all status_event post
     \<and> fst (virCHProcessStop env driver rsn w) = 0
     \<and> state (vm (snd (virCHProcessStop env driver rsn w))) = VIR_DOMAIN_SHUTOFF"
proof -
  have "fst (virCHProcessStop env driver rsn w) = 0"
    by (simp add: virCHProcessStop_def Let_def)
  moreover have "state (vm (snd (virCHProcessStop env driver rsn w))) = VIR_DOMAIN_SHUTOFF"
    by (simp add: virCHProcessStop_vm)
  ultimately show ?thesis
    using virCHProcessStop_trace [of env w driver rsn] by simp
qed

theorem C4_cgroup_removal_bounded_retry_witness:
  "trace (snd (virCHProcessStop env_busy example_driver VIR_DOMAIN_SHUTOFF_FAILED example_world)) =
     [E_virCHMonitorClose, E_chHostdevReAttachDomainDevices,
      E_chRemoveCgroup, E_g_usleep 200000, E_chRemoveCgroup, E_g_usleep 200000,
      E_chRemoveCgroup, E_g_usleep 200000, E_chRemoveCgroup, E_g_usleep 200000,
      E_chRemoveCgroup, E_g_usleep 200000, E_chRemoveCgroup,
      E_VIR_WARN ''Failed to remove cgroup'', E_unlink ''/run/ch/guest.xml'']
   \<and> fst (virCHProcessStop env_busy example_driver VIR_DOMAIN_SHUTOFF_FAILED example_world) = 0"
  using C4_cgroup_removal_bounded_retry
    [of env_busy example_world example_driver VIR_DOMAIN_SHUTOFF_FAILED]
  by (simp add: virCHProcessStop_def chRemoveCgroup_retry.simps chProcessRemoveDomainStatus_def
      env_busy_def env_quiet_def example_world_def example_vm_def example_def_def
      example_driver_def example_monitor_def call_def set_priv_def set_def_def
      virDomainObjSetState_def EBUSY_def ENOENT_def ENOTDIR_def Let_def)

lemma virCHProcessStop_no_close:
  assumes "monitor (privateData (vm w)) = None"
  shows "\<exists>evs. trace (snd (virCHProcessStop env driver rsn w)) = trace w @ evs
     \<and> E_virCHMonitorClose \<notin> set evs \<and> (\<forall>c. E_virReportError c \<notin> set evs)"
proof -
  from virCHProcessStop_trace [of env w driver rsn]
  obtain k post where tr: "trace (snd (virCHProcessStop env driver rsn w)) =
          stop_prefix w @ busy_rounds k @ [E_chRemoveCgroup]
          @ (if ret_int env (stop_prefix w @ busy_rounds k @ [E_chRemoveCgroup]) < 0
             then [E_VIR_WARN ''Failed to remove cgroup''] else [])
          @ post"
    and ev: "list_all status_event post"
    by blast
  have p: "E_virCHMonitorClose \<notin> set post \<and> (\<forall>c. E_virReportError c \<notin> set post)"
    using ev by (auto simp: list_all_iff)
  have b: "set (busy_rounds k) \<subseteq> {E_chRemoveCgroup, E_g_usleep (200 * 1000)}"
    by (induction k) (auto simp: busy_rounds_0 busy_rounds_Suc)
  show ?thesis
    apply (rule exI [of _ "[E_chHostdevReAttachDomainDevices] @ busy_rounds k @ [E_chRemoveCgroup]
          @ (if ret_int env (stop_prefix w @ busy_rounds k @ [E_chRemoveCgroup]) < 0
             then [E_VIR_WARN ''Failed to remove cgroup''] else [])
          @ post"])
    using p b assms by (auto simp: tr stop_prefix_def)
qed

text \<open>
  C8. Stop twice in a row, with the same reason and whatever the environment answers in
  either call: the second call returns 0 and leaves the domain object exactly as the
  first call left it (Shutoff with the supplied reason, process identifier cleared, no
  monitor); it neither closes a monitor nor reports an error.
\<close>

theorem C8_stop_idempotent:
  "fst (virCHProcessStop env2 driver rsn (snd (virCHProcessStop env1 driver rsn w))) = 0
   \<and> vm (snd (virCHProcessStop env2 driver rsn (snd (virCHProcessStop env1 driver rsn w))))
       = vm (snd (virCHProcessStop env1 driver rsn w))
   \<and> state (vm (snd (virCHProcessStop env1 driver rsn w))) = VIR_DOMAIN_SHUTOFF
   \<and> reason (vm (snd (virCHProcessStop env1 driver rsn w))) = rsn
   \<and> pid (vm (snd (virCHProcessStop env1 driver rsn w))) = - 1
   \<and> monitor (privateData (vm (snd (virCHProcessStop env1 driver rsn w)))) = None
   \<and> (\<exists>evs. trace (snd (virCHProcessStop env2 driver rsn (snd (virCHProcessStop env1 driver rsn w))))
              = trace (snd (virCHProcessStop env1 driver rsn w)) @ evs
            \<and> E_virCHMonitorClose \<notin> set evs \<and> (\<forall>c. E_virReportError c \<notin> set evs))"
proof -
  have m: "monitor (privateData (vm (snd (virCHProcessStop env1 driver rsn w)))) = None"
    by (simp add: virCHProcessStop_vm)
  have r: "fst (virCHProcessStop env2 driver rsn (snd (virCHProcessStop env1 driver rsn w))) = 0"
    by (simp add: virCHProcessStop_def Let_def)
  show ?thesis
    using virCHProcessStop_no_close [OF m, of env2 driver rsn] m r
    by (simp add: virCHProcessStop_vm)
qed


subsection \<open>Facts about the step combinators\<close>

lemma seq_ok:
  "seq f g w = (False, w2) \<Longrightarrow> \<exists>w1. f w = (False, w1) \<and> g w1 = (False, w2)"
  by (auto simp: seq_def split: prod.splits bool.splits)

lemma seq_failed:
  "seq f g w = (True, w2) \<Longrightarrow> f w = (True, w2) \<or> (\<exists>w1. f w = (False, w1) \<and> g w1 = (True, w2))"
  by (auto simp: seq_def split: prod.splits bool.splits)

lemma always_ok: "always f w = (b, w1) \<Longrightarrow> \<not> b \<and> w1 = f w"
  by (auto simp: always_def)

lemma vm_try_call: "try_call env e w = (b, w1) \<Longrightarrow> vm w1 = vm w \<and> trace w1 = trace w @ [e]"
  by (auto simp: try_call_def Let_def)

subsection \<open>Bandwidth limits need the CPU controller\<close>

text \<open>
  C5. When a nonzero period or quota is requested and the domain's cgroup has no CPU
  controller, \<open>virCHProcessSetupPid\<close> returns -1 and the only thing it has done is to
  report \<open>VIR_ERR_CONFIG_UNSUPPORTED\<close>: no cgroup sub-scope, affinity or scheduler call
  was made. With these values as the domain-level period and quota,
  \<open>virCHProcessSetupVcpus\<close> does the same before it looks at any vCPU, and so does
  \<open>virCHProcessSetupVcpu\<close> for a vCPU of the roster.
\<close>

theorem C5_bandwidth_needs_cpu_controller:
  assumes "period_arg \<noteq> 0 \<or> quota_arg \<noteq> 0"
    and "\<not> virCgroupHasController (cgroup (privateData (vm w))) VIR_CGROUP_CONTROLLER_CPU"
  shows "virCHProcessSetupPid env tid nameval idx cpumask_arg period_arg quota_arg sched w
           = (- 1, call (E_virReportError VIR_ERR_CONFIG_UNSUPPORTED) w)
       \<and> (period (cputune (def (vm w))) = period_arg \<and> quota (cputune (def (vm w))) = quota_arg
            \<longrightarrow> virCHProcessSetupVcpus env w
                  = (- 1, call (E_virReportError VIR_ERR_CONFIG_UNSUPPORTED) w)
              \<and> (\<forall>vcpuid < length (vcpus (def (vm w))).
                    virCHProcessSetupVcpu env vcpuid w
                      = (- 1, call (E_virReportError VIR_ERR_CONFIG_UNSUPPORTED) w)))"
  using assms
  by (auto simp: virCHProcessSetupPid_def SetupPid_cleanup_def virCHProcessSetupVcpus_def
      virCHProcessSetupVcpu_def virDomainDefGetVcpu_def Let_def)

theorem C5_bandwidth_needs_cpu_controller_witness:
  "virCHProcessSetupPid env_quiet 77 VIR_CGROUP_THREAD_VCPU 0 (Some {1}) 100000 0 None
       example_world_no_cpu
     = (- 1, call (E_virReportError VIR_ERR_CONFIG_UNSUPPORTED) example_world_no_cpu)
   \<and> virCHProcessSetupVcpus env_quiet example_world_no_cpu
     = (- 1, call (E_virReportError VIR_ERR_CONFIG_UNSUPPORTED) example_world_no_cpu)
   \<and> virCHProcessSetupVcpu env_quiet 1 example_world_no_cpu
     = (- 1, call (E_virReportError VIR_ERR_CONFIG_UNSUPPORTED) example_world_no_cpu)"
proof -
  have a: "(100000 :: 64 word) \<noteq> 0 \<or> (0 :: 64 word) \<noteq> 0"
    by simp
  have b: "\<not> virCgroupHasController (cgroup (privateData (vm example_world_no_cpu)))
              VIR_CGROUP_CONTROLLER_CPU"
    by (simp add: example_world_no_cpu_def example_vm_def virCgroupHasController_def)
  have c: "period (cputune (def (vm example_world_no_cpu))) = 100000
       \<and> quota (cputune (def (vm example_world_no_cpu))) = 0"
    by (simp add: example_world_no_cpu_def example_vm_def example_def_def)
  have d: "(1::nat) < length (vcpus (def (vm example_world_no_cpu)))"
    by (simp add: example_world_no_cpu_def example_vm_def example_def_def)
  show ?thesis
    using C5_bandwidth_needs_cpu_controller
      [OF a b, of env_quiet 77 VIR_CGROUP_THREAD_VCPU 0 "Some {1}" None] c d
    by simp
qed

subsection \<open>Thread setup when the inventory is empty\<close>

text \<open>
  C10. When the refresh of the thread inventory returns 0, \<open>virCHProcessSetupThreads\<close>
  returns 0 and has made no other call than the refresh: no emulator, I/O thread or vCPU
  placement, and the domain record is not saved. When the refresh returns a negative
  value, that value is returned, again with no other call.
\<close>

theorem C10_setup_threads_without_threads:
  "(fst (virCHMonitorRefreshThreadInfo env w) = 0 \<longrightarrow>
      fst (virCHProcessSetupThreads env w) = 0
      \<and> trace (snd (virCHProcessSetupThreads env w)) = trace w @ [E_virCHMonitorRefreshThreadInfo])
   \<and> (fst (virCHMonitorRefreshThreadInfo env w) < 0 \<longrightarrow>
      fst (virCHProcessSetupThreads env w) = fst (virCHMonitorRefreshThreadInfo env w)
      \<and> trace (snd (virCHProcessSetupThreads env w)) = trace w @ [E_virCHMonitorRefreshThreadInfo]
      \<and> vm (snd (virCHProcessSetupThreads env w)) = vm w)"
  by (auto simp: virCHProcessSetupThreads_def virCHMonitorRefreshThreadInfo_def Let_def
      split: prod.splits if_splits)

theorem C10_setup_threads_without_threads_witness:
  "fst (virCHMonitorRefreshThreadInfo env_quiet example_world) = 0
   \<and> virCHProcessSetupThreads env_quiet example_world
       = (0, call E_virCHMonitorRefreshThreadInfo example_world)
   \<and> fst (virCHMonitorRefreshThreadInfo env_refresh_fails example_world) < 0
   \<and> virCHProcessSetupThreads env_refresh_fails example_world
       = (- 1, call E_virCHMonitorRefreshThreadInfo example_world)"
  using C10_setup_threads_without_threads [of env_quiet example_world]
    C10_setup_threads_without_threads [of env_refresh_fails example_world]
  by (simp add: virCHProcessSetupThreads_def virCHMonitorRefreshThreadInfo_def Let_def
      env_quiet_def env_refresh_fails_def example_world_def example_vm_def example_monitor_def
      call_def set_priv_def)


subsection \<open>Reconnection to a domain that shut down in the meantime\<close>

lemma vm_Reconnect_cleanup [simp]: "vm (Reconnect_cleanup j w) = vm w"
  by (simp add: Reconnect_cleanup_def Let_def)

lemma virCHProcessUpdateState_reports:
  assumes "virCHProcessUpdateState env w = (r, w2)" and "\<not> r < 0"
  shows "trace w2 = trace w @ [E_virCHMonitorGetInfo]"
    and "w2 = virCHProcessUpdateStatus (ret_status env (trace w @ [E_virCHMonitorGetInfo]))
               (call E_virCHMonitorGetInfo w)"
  using assms
  by (auto simp: virCHProcessUpdateState_def virCHProcessUpdateInfo_def
      virCHProcessUpdateStatus_def Let_def split: if_splits option.splits)

lemma Reconnect_reattach_reports_shutdown:
  assumes "Reconnect_reattach env w1 = (False, w2)"
    and "ret_status env (trace w2) = Some ''Shutdown''"
  shows "state (vm w2) = VIR_DOMAIN_SHUTDOWN"
proof -
  note s0 = assms(1) [unfolded Reconnect_reattach_def]
  from seq_ok [OF s0] obtain a where s1: "(seq (virCHConnectMonitor env)
    (seq (always (\<lambda>w. set_def (\<lambda>d. d\<lparr>def_id := pid (vm w)\<rparr>) w))
    (seq (Reconnect_machine_name env)
    (seq (chConnectCgroup env)
         (neg (virCHProcessUpdateState env)))))) a = (False, w2)"
    by blast
  from seq_ok [OF s1] obtain b where s2: "(seq (always (\<lambda>w. set_def (\<lambda>d. d\<lparr>def_id := pid (vm w)\<rparr>) w))
    (seq (Reconnect_machine_name env)
    (seq (chConnectCgroup env)
         (neg (virCHProcessUpdateState env))))) b = (False, w2)"
    by blast
  from seq_ok [OF s2] obtain c where s3: "(seq (Reconnect_machine_name env)
    (seq (chConnectCgroup env)
         (neg (virCHProcessUpdateState env)))) c = (False, w2)"
    by blast
  from seq_ok [OF s3] obtain d where s4: "(seq (chConnectCgroup env)
         (neg (virCHProcessUpdateState env))) d = (False, w2)"
    by blast
  from seq_ok [OF s4] obtain w' where "neg (virCHProcessUpdateState env) w' = (False, w2)"
    by blast
  then obtain r where u: "virCHProcessUpdateState env w' = (r, w2)" and r: "\<not> r < 0"
    by (auto simp: neg_def split: prod.splits)
  have t: "trace w2 = trace w' @ [E_virCHMonitorGetInfo]"
    by (rule virCHProcessUpdateState_reports(1) [OF u r])
  have "w2 = virCHProcessUpdateStatus (ret_status env (trace w' @ [E_virCHMonitorGetInfo]))
               (call E_virCHMonitorGetInfo w')"
    by (rule virCHProcessUpdateState_reports(2) [OF u r])
  also have "ret_status env (trace w' @ [E_virCHMonitorGetInfo]) = Some ''Shutdown''"
    using assms(2) t by simp
  finally show ?thesis
    by (simp add: virCHProcessUpdateStatus_def virDomainObjSetState_def)
qed

lemma Reconnect_reattach_monitor:
  assumes "Reconnect_reattach env w1 = (False, w2)"
  shows "monitor (privateData (vm w2)) \<noteq> None"
proof -
  note s0 = assms [unfolded Reconnect_reattach_def]
  from seq_ok [OF s0] obtain a where s1: "(seq (virCHConnectMonitor env)
    (seq (always (\<lambda>w. set_def (\<lambda>d. d\<lparr>def_id := pid (vm w)\<rparr>) w))
    (seq (Reconnect_machine_name env)
    (seq (chConnectCgroup env)
         (neg (virCHProcessUpdateState env)))))) a = (False, w2)"
    by blast
  from seq_ok [OF s1] obtain b where b: "virCHConnectMonitor env a = (False, b)"
    and s2: "(seq (always (\<lambda>w. set_def (\<lambda>d. d\<lparr>def_id := pid (vm w)\<rparr>) w))
    (seq (Reconnect_machine_name env)
    (seq (chConnectCgroup env)
         (neg (virCHProcessUpdateState env))))) b = (False, w2)"
    by blast
  from seq_ok [OF s2] obtain c
    where c: "always (\<lambda>w. set_def (\<lambda>d. d\<lparr>def_id := pid (vm w)\<rparr>) w) b = (False, c)"
    and s3: "(seq (Reconnect_machine_name env)
    (seq (chConnectCgroup env)
         (neg (virCHProcessUpdateState env)))) c = (False, w2)"
    by blast
  from seq_ok [OF s3] obtain d where d: "Reconnect_machine_name env c = (False, d)"
    and s4: "(seq (chConnectCgroup env) (neg (virCHProcessUpdateState env))) d = (False, w2)"
    by blast
  from seq_ok [OF s4] obtain e where e: "chConnectCgroup env d = (False, e)"
    and u: "neg (virCHProcessUpdateState env) e = (False, w2)"
    by blast
  have mb: "monitor (privateData (vm b)) \<noteq> None"
    using b by (auto simp: virCHConnectMonitor_def Let_def)
  have mc: "monitor (privateData (vm c)) = monitor (privateData (vm b))"
    using c by (auto simp: always_def set_def_def)
  have md: "monitor (privateData (vm d)) = monitor (privateData (vm c))"
    using d by (auto simp: Reconnect_machine_name_def Start_machine_name_def Let_def set_priv_def)
  have me: "monitor (privateData (vm e)) = monitor (privateData (vm d))"
    using e by (auto simp: chConnectCgroup_def Let_def set_priv_def split: if_splits)
  have "monitor (privateData (vm w2)) = monitor (privateData (vm e))"
    using u
    by (auto simp: neg_def virCHProcessUpdateState_def virCHProcessUpdateInfo_def
        virCHProcessUpdateStatus_def virDomainObjSetState_def Let_def
        split: prod.splits if_splits option.splits)
  then show ?thesis
    using mb mc md me by simp
qed

lemma Reconnect_cleanup_inactive:
  "def_id (def (vm w)) = - 1 \<Longrightarrow>
     trace (Reconnect_cleanup True w) =
       trace w @ [E_virCHDomainRemoveInactive, E_virCHDomainObjEndJob, E_virDomainObjEndAPI]"
  by (simp add: Reconnect_cleanup_def virDomainObjIsActive_def Let_def)

text \<open>
  C9, as the code has it. Take a reconnection task that got its job and whose
  reattachment steps (host devices, monitor, machine name, cgroup, state update from the
  monitor) succeeded. If the state query reported "Shutdown", or the domain is then
  recorded as Paused with reason "shutting down", the task completes the stop sequence
  with reason "daemon": it closes the monitor, releases the host devices, removes the
  cgroup (with the bounded retry), clears the process identifiers, unlinks the status
  file, does not save the domain, then removes the inactive domain and ends the job. The
  domain ends in Shutoff with reason daemon, without monitor, and not in Running.
\<close>

theorem C9_reconnect_finishes_shutdown:
  assumes "try_call env E_virCHDomainObjBeginJob (call E_virCHDomainObjRestoreJob w) = (False, w1)"
    and "Reconnect_reattach env w1 = (False, w2)"
    and "ret_status env (trace w2) = Some ''Shutdown''
         \<or> (state (vm w2) = VIR_DOMAIN_PAUSED \<and> reason (vm w2) = VIR_DOMAIN_PAUSED_SHUTTING_DOWN)"
  shows "state (vm (virCHProcessReconnect env driver w)) = VIR_DOMAIN_SHUTOFF
       \<and> reason (vm (virCHProcessReconnect env driver w)) = VIR_DOMAIN_SHUTOFF_DAEMON
       \<and> pid (vm (virCHProcessReconnect env driver w)) = - 1
       \<and> state (vm (virCHProcessReconnect env driver w)) \<noteq> VIR_DOMAIN_RUNNING
       \<and> vm (virCHProcessReconnect env driver w) =
           (vm w2)\<lparr>pid := - 1,
                   def := (def (vm w2))\<lparr>def_id := - 1\<rparr>,
                   privateData := (privateData (vm w2))\<lparr>monitor := None\<rparr>,
                   state := VIR_DOMAIN_SHUTOFF,
                   reason := VIR_DOMAIN_SHUTOFF_DAEMON\<rparr>
       \<and> (\<exists>k post. k \<le> 5
            \<and> trace (virCHProcessReconnect env driver w) =
                trace w2 @ [E_virCHMonitorClose, E_chHostdevReAttachDomainDevices]
                @ busy_rounds k @ [E_chRemoveCgroup]
                @ (if ret_int env (trace w2 @ [E_virCHMonitorClose, E_chHostdevReAttachDomainDevices]
                                    @ busy_rounds k @ [E_chRemoveCgroup]) < 0
                   then [E_VIR_WARN ''Failed to remove cgroup''] else [])
                @ post
                @ [E_virCHDomainRemoveInactive, E_virCHDomainObjEndJob, E_virDomainObjEndAPI]
            \<and> list_all status_event post
            \<and> E_unlink (stateDir driver @ ''/'' @ def_name (def (vm w2)) @ ''.xml'') \<in> set post)"
proof -
  let ?stop = "snd (virCHProcessStop env driver VIR_DOMAIN_SHUTOFF_DAEMON w2)"
  have c: "state (vm w2) = VIR_DOMAIN_SHUTDOWN
      \<or> (state (vm w2) = VIR_DOMAIN_PAUSED \<and> reason (vm w2) = VIR_DOMAIN_PAUSED_SHUTTING_DOWN)"
    using assms(3) Reconnect_reattach_reports_shutdown [OF assms(2)] by blast
  have eq: "virCHProcessReconnect env driver w = Reconnect_cleanup True ?stop"
    using assms(1,2) c by (auto simp: virCHProcessReconnect_def virDomainObjGetState_def)
  have v: "vm (virCHProcessReconnect env driver w) =
           (vm w2)\<lparr>pid := - 1,
                   def := (def (vm w2))\<lparr>def_id := - 1\<rparr>,
                   privateData := (privateData (vm w2))\<lparr>monitor := None\<rparr>,
                   state := VIR_DOMAIN_SHUTOFF,
                   reason := VIR_DOMAIN_SHUTOFF_DAEMON\<rparr>"
    by (simp add: eq virCHProcessStop_vm)
  obtain mon where mon: "monitor (privateData (vm w2)) = Some mon"
    using Reconnect_reattach_monitor [OF assms(2)] by auto
  have pre: "stop_prefix w2 = trace w2 @ [E_virCHMonitorClose, E_chHostdevReAttachDomainDevices]"
    by (simp add: stop_prefix_def mon)
  have inactive: "def_id (def (vm ?stop)) = - 1"
    by (simp add: virCHProcessStop_vm)
  have t: "trace (virCHProcessReconnect env driver w) =
      trace ?stop @ [E_virCHDomainRemoveInactive, E_virCHDomainObjEndJob, E_virDomainObjEndAPI]"
    unfolding eq by (rule Reconnect_cleanup_inactive [OF inactive])
  from virCHProcessStop_events [where env = env and w = w2 and driver = driver
      and rsn = VIR_DOMAIN_SHUTOFF_DAEMON]
  obtain k post where k: "k \<le> 5"
    and s: "trace ?stop =
          stop_prefix w2 @ busy_rounds k @ [E_chRemoveCgroup]
          @ (if ret_int env (stop_prefix w2 @ busy_rounds k @ [E_chRemoveCgroup]) < 0
             then [E_VIR_WARN ''Failed to remove cgroup''] else [])
          @ post"
    and ev: "list_all status_event post"
    and ul: "E_unlink (stateDir driver @ ''/'' @ def_name (def (vm w2)) @ ''.xml'') \<in> set post"
    by blast
  have tr: "\<exists>k post. k \<le> 5
            \<and> trace (virCHProcessReconnect env driver w) =
                trace w2 @ [E_virCHMonitorClose, E_chHostdevReAttachDomainDevices]
                @ busy_rounds k @ [E_chRemoveCgroup]
                @ (if ret_int env (trace w2 @ [E_virCHMonitorClose, E_chHostdevReAttachDomainDevices]
                                    @ busy_rounds k @ [E_chRemoveCgroup]) < 0
                   then [E_VIR_WARN ''Failed to remove cgroup''] else [])
                @ post
                @ [E_virCHDomainRemoveInactive, E_virCHDomainObjEndJob, E_virDomainObjEndAPI]
            \<and> list_all status_event post
            \<and> E_unlink (stateDir driver @ ''/'' @ def_name (def (vm w2)) @ ''.xml'') \<in> set post"
    apply (rule exI [of _ k], rule exI [of _ post])
    using k ev ul by (simp add: t s pre)
  have s1: "state (vm (virCHProcessReconnect env driver w)) = VIR_DOMAIN_SHUTOFF"
    and s2: "reason (vm (virCHProcessReconnect env driver w)) = VIR_DOMAIN_SHUTOFF_DAEMON"
    and s3: "pid (vm (virCHProcessReconnect env driver w)) = - 1"
    and s4: "state (vm (virCHProcessReconnect env driver w)) \<noteq> VIR_DOMAIN_RUNNING"
    by (simp_all add: v)
  from s1 s2 s3 s4 v tr show ?thesis
    by (intro conjI)
qed

theorem C9_reconnect_finishes_shutdown_witness:
  "state (vm (virCHProcessReconnect env_reports_shutdown example_driver example_world_found))
     = VIR_DOMAIN_SHUTOFF
   \<and> reason (vm (virCHProcessReconnect env_reports_shutdown example_driver example_world_found))
     = VIR_DOMAIN_SHUTOFF_DAEMON
   \<and> state (vm (virCHProcessReconnect env_reports_nothing example_driver example_world_found_paused))
     = VIR_DOMAIN_SHUTOFF
   \<and> reason (vm (virCHProcessReconnect env_reports_nothing example_driver example_world_found_paused))
     = VIR_DOMAIN_SHUTOFF_DAEMON"
proof -
  note defs = Reconnect_reattach_def seq_def try_call_def always_def neg_def
    virCHConnectMonitor_def Reconnect_machine_name_def Start_machine_name_def
    chConnectCgroup_def virCHProcessUpdateState_def virCHProcessUpdateInfo_def
    virCHProcessUpdateStatus_def virDomainObjSetState_def call_def set_priv_def set_def_def
    env_reports_shutdown_def env_reports_nothing_def env_quiet_def
    example_world_found_def example_world_found_paused_def example_world_def
    example_vm_def example_def_def example_monitor_def Let_def
  define a1 where "a1 = snd (try_call env_reports_shutdown E_virCHDomainObjBeginJob
      (call E_virCHDomainObjRestoreJob example_world_found))"
  define a2 where "a2 = snd (Reconnect_reattach env_reports_shutdown a1)"
  define b1 where "b1 = snd (try_call env_reports_nothing E_virCHDomainObjBeginJob
      (call E_virCHDomainObjRestoreJob example_world_found_paused))"
  define b2 where "b2 = snd (Reconnect_reattach env_reports_nothing b1)"
  have a1: "try_call env_reports_shutdown E_virCHDomainObjBeginJob
      (call E_virCHDomainObjRestoreJob example_world_found) = (False, a1)"
    by (simp add: a1_def defs)
  have a2: "Reconnect_reattach env_reports_shutdown a1 = (False, a2)"
    by (simp add: a2_def a1_def defs)
  have a3: "ret_status env_reports_shutdown (trace a2) = Some ''Shutdown''
      \<or> (state (vm a2) = VIR_DOMAIN_PAUSED \<and> reason (vm a2) = VIR_DOMAIN_PAUSED_SHUTTING_DOWN)"
    by (simp add: env_reports_shutdown_def)
  have b1: "try_call env_reports_nothing E_virCHDomainObjBeginJob
      (call E_virCHDomainObjRestoreJob example_world_found_paused) = (False, b1)"
    by (simp add: b1_def defs)
  have b2: "Reconnect_reattach env_reports_nothing b1 = (False, b2)"
    by (simp add: b2_def b1_def defs)
  have b3: "ret_status env_reports_nothing (trace b2) = Some ''Shutdown''
      \<or> (state (vm b2) = VIR_DOMAIN_PAUSED \<and> reason (vm b2) = VIR_DOMAIN_PAUSED_SHUTTING_DOWN)"
    by (simp add: b2_def b1_def defs)
  note ta = C9_reconnect_finishes_shutdown [OF a1 a2 a3, of example_driver]
  note tb = C9_reconnect_finishes_shutdown [OF b1 b2 b3, of example_driver]
  from ta [THEN conjunct1] ta [THEN conjunct2, THEN conjunct1]
    tb [THEN conjunct1] tb [THEN conjunct2, THEN conjunct1]
  show ?thesis
    by (intro conjI)
qed

text \<open>
  C9, as the claim words it, fails. The example domain was recorded as Paused with reason
  "shutting down" when the daemon went away, and the state query after the reattachment
  reports "Paused". The report is stored as PMSuspended with reason 0 (line 376), the
  test of lines 825-827 does not hold, and the task saves the domain and keeps it: no
  stop sequence, the monitor stays open, the process identifier stays, and the domain is
  not in Shutoff.
\<close>

theorem C9_reported_paused_counterexample:
  "state (vm example_world_found_paused) = VIR_DOMAIN_PAUSED
   \<and> reason (vm example_world_found_paused) = VIR_DOMAIN_PAUSED_SHUTTING_DOWN
   \<and> state (vm (virCHProcessReconnect env_reports_paused example_driver example_world_found_paused))
       = VIR_DOMAIN_PMSUSPENDED
   \<and> reason (vm (virCHProcessReconnect env_reports_paused example_driver example_world_found_paused))
       = 0
   \<and> pid (vm (virCHProcessReconnect env_reports_paused example_driver example_world_found_paused))
       = 4242
   \<and> monitor (privateData
         (vm (virCHProcessReconnect env_reports_paused example_driver example_world_found_paused)))
       = Some example_monitor
   \<and> trace (virCHProcessReconnect env_reports_paused example_driver example_world_found_paused)
       = [E_virCHDomainObjRestoreJob, E_virCHDomainObjBeginJob,
          E_chHostdevUpdateActiveDomainDevices, E_virCHMonitorOpen,
          E_virCHDomainGetMachineName, E_chConnectCgroup, E_virCHMonitorGetInfo,
          E_virDomainObjSave, E_virCHDomainObjEndJob, E_virDomainObjEndAPI]"
  by (simp add: virCHProcessReconnect_def Reconnect_reattach_def Reconnect_cleanup_def
      Reconnect_error_def virDomainObjGetState_def virDomainObjIsActive_def
      seq_def try_call_def always_def neg_def
      virCHConnectMonitor_def Reconnect_machine_name_def Start_machine_name_def
      chConnectCgroup_def virCHProcessUpdateState_def virCHProcessUpdateInfo_def
      virCHProcessUpdateStatus_def virDomainObjSetState_def call_def set_priv_def set_def_def
      env_reports_paused_def env_reports_nothing_def env_quiet_def
      example_world_found_paused_def example_world_found_def example_world_def
      example_vm_def example_def_def example_monitor_def
      VIR_DOMAIN_PAUSED_SHUTTING_DOWN_def Let_def)



subsection \<open>Which events a function can add to the history\<close>

lemma extends_refl: "extends P w w"
  by (simp add: extends_def)

lemma extends_trans: "extends P a b \<Longrightarrow> extends P b c \<Longrightarrow> extends P a c"
  by (auto simp: extends_def)

lemma extends_same: "trace w' = trace w \<Longrightarrow> extends P w w'"
  by (simp add: extends_def)

lemma extends_call: "P e \<Longrightarrow> extends P w (call e w)"
  by (simp add: extends_def)

lemma extends_then_call: "extends P w w0 \<Longrightarrow> P e \<Longrightarrow> extends P w (call e w0)"
  by (auto simp: extends_def)

lemma extends_then_set_priv: "extends P w w0 \<Longrightarrow> extends P w (set_priv f w0)"
  by (auto simp: extends_def)

lemma extends_then_set_def: "extends P w w0 \<Longrightarrow> extends P w (set_def f w0)"
  by (auto simp: extends_def)

lemma keepsI: "(\<And>w r w'. f w = (r, w') \<Longrightarrow> extends P w w') \<Longrightarrow> keeps P f"
  by (simp add: keeps_def)

lemma keepsD: "keeps P f \<Longrightarrow> f w = (r, w') \<Longrightarrow> extends P w w'"
  by (simp add: keeps_def)

lemma keeps_then: "keeps P f \<Longrightarrow> f w0 = (r, w') \<Longrightarrow> extends P w w0 \<Longrightarrow> extends P w w'"
  by (blast intro: extends_trans dest: keepsD)

lemma keeps_snd: "keeps P f \<Longrightarrow> extends P w (snd (f w))"
  by (cases "f w") (auto dest: keepsD)

lemma keeps_try_call: "P e \<Longrightarrow> keeps P (try_call env e)"
  by (auto simp: keeps_def try_call_def Let_def intro: extends_call)

lemma keeps_skip: "keeps P skip"
  by (simp add: keeps_def skip_def extends_refl)

lemma keeps_seq: "keeps P f \<Longrightarrow> keeps P g \<Longrightarrow> keeps P (seq f g)"
  unfolding keeps_def seq_def
  by (auto split: prod.splits bool.splits) (blast intro: extends_trans)

lemma keeps_neg: "keeps P f \<Longrightarrow> keeps P (neg f)"
  by (auto simp: keeps_def neg_def split: prod.splits)

lemma keeps_report: "P (E_virReportError err) \<Longrightarrow> keeps P s \<Longrightarrow> keeps P (report err s)"
  by (auto simp: keeps_def report_def split: prod.splits bool.splits
      intro: extends_then_call)

lemma keeps_always: "(\<And>w. extends P w (f w)) \<Longrightarrow> keeps P (always f)"
  by (auto simp: keeps_def always_def)

lemma keeps_if: "keeps P f \<Longrightarrow> keeps P g \<Longrightarrow> keeps P (if c then f else g)"
  by simp

lemma keeps_case_option:
  "keeps P f \<Longrightarrow> (\<And>x. keeps P (g x)) \<Longrightarrow> keeps P (case opt of None \<Rightarrow> f | Some x \<Rightarrow> g x)"
  by (cases opt) simp_all

lemma extends_GetAllCpuAffinity:
  "virCHProcessGetAllCpuAffinity env w = (r, m, w') \<Longrightarrow> extends other_event w w'"
  by (auto simp: virCHProcessGetAllCpuAffinity_def Let_def extends_def other_event_def
       split: if_splits option.splits)

lemma extends_infer_cpumask:
  "SetupPid_infer_cpumask env cpumask_arg w = (failed, use, host, w') \<Longrightarrow> extends other_event w w'"
  by (auto simp: SetupPid_infer_cpumask_def extends_refl
      split: option.splits if_splits prod.splits dest: extends_GetAllCpuAffinity)

lemma keeps_SetupPid_cgroup_settings:
  "keeps other_event (SetupPid_cgroup_settings env tid nameval idx use mm p q)"
proof (rule keepsI)
  fix w r w'
  assume a: "SetupPid_cgroup_settings env tid nameval idx use mm p q w = (r, w')"
  have "keeps other_event
     (seq (if virCgroupHasController (cgroup (privateData (vm w))) VIR_CGROUP_CONTROLLER_CPUSET
           then seq (case use of
                       Some m \<Rightarrow> try_call env (E_chSetupCgroupCpusetCpus nameval idx m)
                     | None \<Rightarrow> skip)
                    (case mm of
                       Some s \<Rightarrow> try_call env (E_virCgroupSetCpusetMems nameval idx s)
                     | None \<Rightarrow> skip)
           else skip)
     (seq (if p \<noteq> 0 \<or> q \<noteq> 0
           then try_call env (E_chSetupCgroupVcpuBW nameval idx p q)
           else skip)
          (try_call env (E_virCgroupAddThread nameval idx tid))))"
    by (intro keeps_seq keeps_if keeps_skip keeps_try_call)
       (auto simp: other_event_def intro: keeps_try_call keeps_skip split: option.splits)
  then show "extends other_event w w'"
    using a unfolding SetupPid_cgroup_settings_def by (rule keepsD)
qed

lemma extends_SetupPid_cgroup:
  "SetupPid_cgroup env tid nameval idx use p q w = (failed, created, w') \<Longrightarrow> extends other_event w w'"
  by (auto simp: SetupPid_cgroup_def Let_def try_call_def extends_def other_event_def
        split: if_splits prod.splits bool.splits
        dest!: keepsD [OF keeps_SetupPid_cgroup_settings])

lemma extends_SetupPid_cleanup:
  "SetupPid_cleanup nameval idx created ret w0 = (r, w') \<Longrightarrow> extends other_event w0 w'"
  by (auto simp: SetupPid_cleanup_def other_event_def extends_def split: if_splits)

lemma keeps_SetupPid_affinity_sched:
  "keeps other_event (SetupPid_affinity_sched env tid nameval aff sched)"
  unfolding SetupPid_affinity_sched_def
  by (intro keeps_seq)
     (auto simp: other_event_def intro: keeps_try_call keeps_skip split: option.splits)

lemma keeps_SetupPid:
  "keeps other_event (virCHProcessSetupPid env tid nameval idx cpumask_arg p q sched)"
  by (rule keepsI)
     (auto simp: virCHProcessSetupPid_def Let_def other_event_def extends_def
        split: if_splits prod.splits bool.splits
        dest!: extends_SetupPid_cleanup extends_infer_cpumask extends_SetupPid_cgroup
          keepsD [OF keeps_SetupPid_affinity_sched])


lemma other_eventI: "\<not> handoff_event e \<Longrightarrow> e \<noteq> E_virCHMonitorBootVM \<Longrightarrow> other_event e"
  by (simp add: other_event_def)

lemma keeps_SetupIOThreads_loop: "keeps other_event (SetupIOThreads_loop env n ts)"
proof (induction n arbitrary: ts)
  case 0
  show ?case by (simp add: keeps_def extends_refl)
next
  case (Suc n)
  show ?case
  proof (cases ts)
    case Nil
    then show ?thesis
      by (simp add: keeps_def extends_def other_eventI)
  next
    case (Cons t ts')
    show ?thesis
      unfolding Cons
      by (rule keepsI)
         (auto simp: virCHProcessSetupIOThread_def extends_def
           split: prod.splits if_splits
           dest!: keepsD [OF keeps_SetupPid] keepsD [OF Suc.IH])
  qed
qed

lemma keeps_SetupIOThreads: "keeps other_event (virCHProcessSetupIOThreads env)"
  by (rule keepsI)
     (auto simp: virCHProcessSetupIOThreads_def Let_def extends_def other_eventI
       dest!: keepsD [OF keeps_SetupIOThreads_loop])

lemma keeps_SetupEmulatorThreads_loop: "keeps other_event (SetupEmulatorThreads_loop env ts)"
proof (induction ts)
  case Nil
  show ?case by (simp add: keeps_def extends_refl)
next
  case (Cons t ts)
  show ?case
    by (rule keepsI)
       (auto simp: virCHProcessSetupEmulatorThread_def extends_def
         split: prod.splits if_splits
         dest!: keepsD [OF keeps_SetupPid] keepsD [OF Cons.IH])
qed

lemma keeps_SetupEmulatorThreads: "keeps other_event (virCHProcessSetupEmulatorThreads env)"
  by (rule keepsI)
     (auto simp: virCHProcessSetupEmulatorThreads_def extends_def other_eventI
       split: option.splits
       dest!: keepsD [OF keeps_SetupEmulatorThreads_loop])

lemma keeps_SetupVcpu: "keeps other_event (virCHProcessSetupVcpu env i)"
  by (rule keepsI)
     (auto simp: virCHProcessSetupVcpu_def extends_def other_eventI
       split: option.splits
       dest!: keepsD [OF keeps_SetupPid])

lemma extends_SetupVcpuPids_loop: "extends other_event w (SetupVcpuPids_loop ts w)"
proof (induction ts arbitrary: w)
  case Nil
  show ?case by (simp add: extends_refl)
next
  case (Cons t ts)
  have a: "extends other_event w (SetupVcpuPids_loop ts (call E_NULL_dereference w))"
    by (rule extends_trans [OF extends_call Cons.IH]) (simp add: other_eventI)
  have b: "extends other_event w (SetupVcpuPids_loop ts (set_def f w))" for f
    by (rule extends_trans [OF extends_same Cons.IH]) simp
  show ?case
    using a b Cons.IH by (simp split: option.splits)
qed

lemma keeps_SetupVcpuPids: "keeps other_event (virCHProcessSetupVcpuPids env)"
  by (rule keepsI)
     (auto simp: virCHProcessSetupVcpuPids_def Let_def other_eventI
       intro!: extends_trans [OF extends_call extends_SetupVcpuPids_loop])

lemma keeps_SetupVcpus_reject_loop: "keeps other_event (SetupVcpus_reject_loop is)"
proof (induction "is")
  case Nil
  show ?case by (simp add: keeps_def extends_refl)
next
  case (Cons i "is")
  show ?case
    by (rule keepsI)
       (auto simp: extends_def other_eventI split: option.splits if_splits
         dest!: keepsD [OF Cons.IH])
qed

lemma keeps_SetupVcpus_place_loop: "keeps other_event (SetupVcpus_place_loop env is)"
proof (induction "is")
  case Nil
  show ?case by (simp add: keeps_def extends_refl)
next
  case (Cons i "is")
  show ?case
    by (rule keepsI)
       (auto simp: extends_def other_eventI split: option.splits if_splits prod.splits
         dest!: keepsD [OF Cons.IH] keepsD [OF keeps_SetupVcpu])
qed

lemma keeps_SetupVcpus: "keeps other_event (virCHProcessSetupVcpus env)"
proof (rule keepsI)
  fix w r w'
  assume a: "virCHProcessSetupVcpus env w = (r, w')"
  have p: "extends other_event w (call E_virCHDomainHasVcpuPids (snd (virCHProcessSetupVcpuPids env w)))"
    by (rule extends_then_call [OF keeps_snd [OF keeps_SetupVcpuPids]])
       (simp add: other_eventI)
  show "extends other_event w w'"
    using a p
    by (auto simp: virCHProcessSetupVcpus_def Let_def other_eventI
        split: if_splits intro: extends_call
        elim: keeps_then [OF keeps_SetupVcpus_reject_loop]
          keeps_then [OF keeps_SetupVcpus_place_loop])
qed

lemma keeps_RefreshThreadInfo: "keeps other_event (virCHMonitorRefreshThreadInfo env)"
  by (rule keepsI)
     (auto simp: virCHMonitorRefreshThreadInfo_def Let_def extends_def other_eventI
       split: if_splits)

lemma keeps_UpdateInfo: "keeps other_event (virCHProcessUpdateInfo env)"
  by (rule keepsI)
     (auto simp: virCHProcessUpdateInfo_def virCHProcessUpdateStatus_def Let_def extends_def
       other_eventI split: if_splits option.splits)

lemma keeps_SetupThreads: "keeps other_event (virCHProcessSetupThreads env)"
  by (rule keepsI)
     (auto simp: virCHProcessSetupThreads_def Let_def extends_def other_eventI
       split: if_splits prod.splits
       dest!: keepsD [OF keeps_RefreshThreadInfo] keepsD [OF keeps_SetupEmulatorThreads]
         keepsD [OF keeps_SetupIOThreads] keepsD [OF keeps_SetupVcpus])

lemma keeps_InitCpuAffinity: "keeps other_event (virCHProcessInitCpuAffinity env)"
  by (rule keepsI)
     (auto simp: virCHProcessInitCpuAffinity_def Let_def extends_def other_eventI try_call_def
       split: if_splits prod.splits option.splits bool.splits
       dest!: extends_GetAllCpuAffinity)


subsection \<open>The network handoff and the boot command in Start\<close>

lemma AddNetworkDevices_loop_ok:
  "AddNetworkDevices_loop env is w = (False, w') \<Longrightarrow>
     \<exists>h. trace w' = trace w @ h \<and> list_all handoff_event h
       \<and> length (nets (def (vm w'))) = length (nets (def (vm w)))
       \<and> (\<forall>i\<in>set is. (\<exists>n. E_virSocketSendMsgWithFD i n \<in> set h)
                      \<and> E_virSocketRecvHttpResponse i \<in> set h)"
proof (induction "is" arbitrary: w)
  case Nil
  then show ?case by simp
next
  case (Cons i "is")
  let ?net = "nets (def (vm w)) ! i"
  let ?n = "if queues ?net = 0 then 1 else queues ?net"
  let ?w0 = "if queues ?net = 0
             then set_def (\<lambda>d. d\<lparr>nets := (nets d)[i := ?net\<lparr>queues := 1\<rparr>]\<rparr>) w else w"
  let ?w4 = "call (E_virSocketRecvHttpResponse i) (call (E_close_fds i ?n)
               (call (E_virSocketSendMsgWithFD i ?n) (call (E_virCHMonitorBuildNetJson i) ?w0)))"
  have rest: "AddNetworkDevices_loop env is ?w4 = (False, w')"
    using Cons.prems by (simp add: Let_def split: if_splits)
  have tr4: "trace ?w4 = trace w @ [E_virCHMonitorBuildNetJson i, E_virSocketSendMsgWithFD i ?n,
      E_close_fds i ?n, E_virSocketRecvHttpResponse i]"
    by simp
  have len4: "length (nets (def (vm ?w4))) = length (nets (def (vm w)))"
    by (simp add: set_def_def)
  from Cons.IH [OF rest] obtain h where h: "trace w' = trace ?w4 @ h" "list_all handoff_event h"
    "length (nets (def (vm w'))) = length (nets (def (vm ?w4)))"
    "\<forall>i\<in>set is. (\<exists>n. E_virSocketSendMsgWithFD i n \<in> set h) \<and> E_virSocketRecvHttpResponse i \<in> set h"
    by blast
  show ?case
    apply (rule exI [of _ "[E_virCHMonitorBuildNetJson i, E_virSocketSendMsgWithFD i ?n,
      E_close_fds i ?n, E_virSocketRecvHttpResponse i] @ h"])
    using h(2,4) len4 by (auto simp: h(1) tr4 h(3) set_def_def simp del: trace_call)
qed

lemma chProcessAddNetworkDevices_ok:
  assumes "chProcessAddNetworkDevices env mon w = (r, w')" and "\<not> r < 0"
  shows "\<exists>h. trace w' = trace w @ h \<and> list_all handoff_event h \<and> E_close_socket \<in> set h
       \<and> (\<forall>i < length (nets (def (vm w))).
             (\<exists>n. E_virSocketSendMsgWithFD i n \<in> set h) \<and> E_virSocketRecvHttpResponse i \<in> set h)"
proof -
  let ?w2 = "call (E_connect (socketpath mon)) (call E_socket w)"
  from assms obtain w3 where
    loop: "AddNetworkDevices_loop env [0 ..< length (nets (def (vm w)))] ?w2 = (False, w3)"
    and w': "w' = call E_close_socket w3"
    by (auto simp: chProcessAddNetworkDevices_def Let_def split: if_splits prod.splits bool.splits)
  from AddNetworkDevices_loop_ok [OF loop] obtain h where h: "trace w3 = trace ?w2 @ h"
    "list_all handoff_event h"
    "\<forall>i\<in>set [0 ..< length (nets (def (vm w)))].
       (\<exists>n. E_virSocketSendMsgWithFD i n \<in> set h) \<and> E_virSocketRecvHttpResponse i \<in> set h"
    by blast
  show ?thesis
    apply (rule exI [of _ "[E_socket, E_connect (socketpath mon)] @ h @ [E_close_socket]"])
    using h(2,3) by (auto simp: w' h(1))
qed

lemma Start_connect_monitor_keeps:
  "Start_connect_monitor env w = (b, w') \<Longrightarrow> def (vm w') = def (vm w) \<and> extends other_event w w'"
  by (auto simp: Start_connect_monitor_def Let_def report_def try_call_def set_priv_def
      extends_def other_eventI split: option.splits prod.splits bool.splits if_splits)

lemma Start_machine_name_keeps:
  "def (vm (Start_machine_name env w)) = def (vm w)
   \<and> extends other_event w (Start_machine_name env w)"
  by (simp add: Start_machine_name_def Let_def set_priv_def extends_def other_eventI)

lemma Start_add_network_ok:
  "report err (Start_add_network env) w = (False, w') \<Longrightarrow>
     \<exists>mon r. chProcessAddNetworkDevices env mon w = (r, w') \<and> \<not> r < 0"
  by (auto simp: report_def Start_add_network_def neg_def split: prod.splits bool.splits option.splits)

lemma keeps_chSetupCgroup: "keeps other_event (chSetupCgroup env)"
  by (rule keepsI)
     (auto simp: chSetupCgroup_def Let_def extends_def other_eventI split: if_splits)

lemma Start_prepare_ok:
  assumes "Start_prepare env w = (False, w1)"
  shows "\<exists>p1 h p2. trace w1 = trace w @ p1 @ h @ p2
       \<and> list_all other_event p1 \<and> list_all handoff_event h \<and> list_all other_event p2
       \<and> E_close_socket \<in> set h
       \<and> (\<forall>i < length (nets (def (vm w))).
             (\<exists>n. E_virSocketSendMsgWithFD i n \<in> set h) \<and> E_virSocketRecvHttpResponse i \<in> set h)"
proof -
  note s0 = assms [unfolded Start_prepare_def]
  from seq_ok [OF s0] obtain a where a: "try_call env E_chHostdevPrepareDomainDevices w = (False, a)"
    and s1: "(seq (Start_connect_monitor env)
    (seq (always (\<lambda>w. set_def (\<lambda>d. d\<lparr>def_id := pid (vm w)\<rparr>) w))
    (seq (always (Start_machine_name env))
    (seq (report VIR_ERR_INTERNAL_ERROR (Start_add_network env))
    (seq (chSetupCgroup env)
         (neg (virCHProcessInitCpuAffinity env))))))) a = (False, w1)"
    by blast
  from seq_ok [OF s1] obtain b where b: "Start_connect_monitor env a = (False, b)"
    and s2: "(seq (always (\<lambda>w. set_def (\<lambda>d. d\<lparr>def_id := pid (vm w)\<rparr>) w))
    (seq (always (Start_machine_name env))
    (seq (report VIR_ERR_INTERNAL_ERROR (Start_add_network env))
    (seq (chSetupCgroup env)
         (neg (virCHProcessInitCpuAffinity env)))))) b = (False, w1)"
    by blast
  from seq_ok [OF s2] obtain c where c: "always (\<lambda>w. set_def (\<lambda>d. d\<lparr>def_id := pid (vm w)\<rparr>) w) b = (False, c)"
    and s3: "(seq (always (Start_machine_name env))
    (seq (report VIR_ERR_INTERNAL_ERROR (Start_add_network env))
    (seq (chSetupCgroup env)
         (neg (virCHProcessInitCpuAffinity env))))) c = (False, w1)"
    by blast
  from seq_ok [OF s3] obtain d where d: "always (Start_machine_name env) c = (False, d)"
    and s4: "(seq (report VIR_ERR_INTERNAL_ERROR (Start_add_network env))
    (seq (chSetupCgroup env)
         (neg (virCHProcessInitCpuAffinity env)))) d = (False, w1)"
    by blast
  from seq_ok [OF s4] obtain e where e: "report VIR_ERR_INTERNAL_ERROR (Start_add_network env) d = (False, e)"
    and s5: "(seq (chSetupCgroup env) (neg (virCHProcessInitCpuAffinity env))) e = (False, w1)"
    by blast
  have a': "vm a = vm w" "extends other_event w a"
    using a by (auto simp: try_call_def Let_def extends_def other_eventI)
  have b': "def (vm b) = def (vm a)" "extends other_event a b"
    using Start_connect_monitor_keeps [OF b] by auto
  have c': "c = set_def (\<lambda>d. d\<lparr>def_id := pid (vm b)\<rparr>) b"
    using c by (simp add: always_def)
  have d': "d = Start_machine_name env c"
    using d by (simp add: always_def)
  have nets: "nets (def (vm d)) = nets (def (vm w))"
    using a'(1) b'(1) Start_machine_name_keeps [of env c]
    by (simp add: d' c' set_def_def)
  have "extends other_event b c"
    by (simp add: c' extends_same)
  moreover have "extends other_event c d"
    using Start_machine_name_keeps [of env c] by (simp add: d')
  ultimately have wd: "extends other_event w d"
    using a'(2) b'(2) by (blast intro: extends_trans)
  from Start_add_network_ok [OF e] obtain mon r
    where "chProcessAddNetworkDevices env mon d = (r, e)" "\<not> r < 0"
    by blast
  from chProcessAddNetworkDevices_ok [OF this] nets
  obtain h where h: "trace e = trace d @ h" "list_all handoff_event h" "E_close_socket \<in> set h"
    "\<forall>i < length (nets (def (vm w))).
       (\<exists>n. E_virSocketSendMsgWithFD i n \<in> set h) \<and> E_virSocketRecvHttpResponse i \<in> set h"
    by auto
  have "keeps other_event (seq (chSetupCgroup env) (neg (virCHProcessInitCpuAffinity env)))"
    by (intro keeps_seq keeps_neg keeps_chSetupCgroup keeps_InitCpuAffinity)
  from keepsD [OF this s5] obtain p2 where p2: "trace w1 = trace e @ p2" "list_all other_event p2"
    by (auto simp: extends_def)
  from wd obtain p1 where p1: "trace d = trace w @ p1" "list_all other_event p1"
    by (auto simp: extends_def)
  show ?thesis
    apply (rule exI [of _ p1], rule exI [of _ h], rule exI [of _ p2])
    using p1 p2 h by simp
qed

lemma Start_boot_ok:
  assumes "Start_boot env rsn w2 = (False, w3)"
  shows "\<exists>post. trace w3 = trace w2 @ [E_virCHMonitorBootVM] @ post \<and> list_all other_event post"
proof -
  note s0 = assms [unfolded Start_boot_def]
  from seq_ok [OF s0] obtain a
    where a: "report VIR_ERR_INTERNAL_ERROR (try_call env E_virCHMonitorBootVM) w2 = (False, a)"
    and s1: "(seq (always (\<lambda>w. snd (virCHMonitorRefreshThreadInfo env w)))
    (seq (always (\<lambda>w. snd (virCHProcessUpdateInfo env w)))
    (seq (neg (virCHProcessSetupThreads env))
    (seq (try_call env E_chSetupGlobalCpuCgroup)
    (seq (always (virDomainObjSetState VIR_DOMAIN_RUNNING rsn))
         (try_call env E_virDomainObjSave)))))) a = (False, w3)"
    by blast
  have a': "trace a = trace w2 @ [E_virCHMonitorBootVM]"
    using a by (auto simp: report_def try_call_def Let_def split: if_splits bool.splits)
  have "keeps other_event (seq (always (\<lambda>w. snd (virCHMonitorRefreshThreadInfo env w)))
    (seq (always (\<lambda>w. snd (virCHProcessUpdateInfo env w)))
    (seq (neg (virCHProcessSetupThreads env))
    (seq (try_call env E_chSetupGlobalCpuCgroup)
    (seq (always (virDomainObjSetState VIR_DOMAIN_RUNNING rsn))
         (try_call env E_virDomainObjSave))))))"
    by (intro keeps_seq keeps_always keeps_neg keeps_try_call keeps_snd
        keeps_RefreshThreadInfo keeps_UpdateInfo keeps_SetupThreads)
       (simp_all add: other_eventI extends_same)
  from keepsD [OF this s1] show ?thesis
    by (auto simp: extends_def a')
qed

lemma virCHProcessStart_ok:
  assumes "fst (virCHProcessStart env driver rsn w) = 0"
  shows "\<exists>w1 w2. Start_prepare env w = (False, w1)
       \<and> try_call env E_chInterfaceStartDevices w1 = (False, w2)
       \<and> Start_boot env rsn w2 = (False, snd (virCHProcessStart env driver rsn w))"
  using assms
  by (auto simp: virCHProcessStart_def Start_cleanup_def split: prod.splits bool.splits)

lemma other_event_not_boot: "list_all other_event xs \<Longrightarrow> E_virCHMonitorBootVM \<notin> set xs"
  by (auto simp: list_all_iff other_event_def)

lemma handoff_event_not_boot: "list_all handoff_event xs \<Longrightarrow> E_virCHMonitorBootVM \<notin> set xs"
  by (auto simp: list_all_iff)

lemma other_event_not_handoff: "list_all other_event xs \<Longrightarrow> list_all (\<lambda>e. \<not> handoff_event e) xs"
  by (auto simp: list_all_iff other_event_def)

text \<open>
  C3. When \<open>virCHProcessStart\<close> returns 0, what it has done is a sequence
  \<open>pre @ [boot] @ post\<close> with exactly one boot command: before it, for every network
  device configured at entry, the descriptors were sent and the response was received,
  and the handoff connection was closed; after it, no event of the handoff occurs.
\<close>

theorem C3_network_handoff_before_boot:
  assumes "fst (virCHProcessStart env driver rsn w) = 0"
  shows "\<exists>pre post.
      trace (snd (virCHProcessStart env driver rsn w)) = trace w @ pre @ [E_virCHMonitorBootVM] @ post
      \<and> E_virCHMonitorBootVM \<notin> set pre \<and> E_virCHMonitorBootVM \<notin> set post
      \<and> (\<forall>i < length (nets (def (vm w))).
            (\<exists>n. E_virSocketSendMsgWithFD i n \<in> set pre) \<and> E_virSocketRecvHttpResponse i \<in> set pre)
      \<and> E_close_socket \<in> set pre
      \<and> list_all (\<lambda>e. \<not> handoff_event e) post"
proof -
  from virCHProcessStart_ok [OF assms] obtain w1 w2 where
    p: "Start_prepare env w = (False, w1)"
    and n: "try_call env E_chInterfaceStartDevices w1 = (False, w2)"
    and b: "Start_boot env rsn w2 = (False, snd (virCHProcessStart env driver rsn w))"
    by blast
  from Start_prepare_ok [OF p] obtain p1 h p2 where
    t1: "trace w1 = trace w @ p1 @ h @ p2"
    and ev: "list_all other_event p1" "list_all handoff_event h" "list_all other_event p2"
    and cl: "E_close_socket \<in> set h"
    and sent: "\<forall>i < length (nets (def (vm w))).
       (\<exists>n. E_virSocketSendMsgWithFD i n \<in> set h) \<and> E_virSocketRecvHttpResponse i \<in> set h"
    by blast
  have t2: "trace w2 = trace w1 @ [E_chInterfaceStartDevices]"
    using vm_try_call [OF n] by simp
  from Start_boot_ok [OF b] obtain post where
    t3: "trace (snd (virCHProcessStart env driver rsn w)) = trace w2 @ [E_virCHMonitorBootVM] @ post"
    and post: "list_all other_event post"
    by blast
  show ?thesis
    apply (rule exI [of _ "p1 @ h @ p2 @ [E_chInterfaceStartDevices]"], rule exI [of _ post])
    using other_event_not_boot [OF ev(1)] handoff_event_not_boot [OF ev(2)]
      other_event_not_boot [OF ev(3)] other_event_not_boot [OF post]
      other_event_not_handoff [OF post] cl sent
    by (auto simp: t3 t2 t1)
qed


theorem C3_network_handoff_before_boot_witness:
  "fst (virCHProcessStart env_start example_driver 1 example_world_off) = 0
   \<and> (\<exists>pre post.
      trace (snd (virCHProcessStart env_start example_driver 1 example_world_off))
        = trace example_world_off @ pre @ [E_virCHMonitorBootVM] @ post
      \<and> E_virCHMonitorBootVM \<notin> set pre \<and> E_virCHMonitorBootVM \<notin> set post
      \<and> (\<forall>i < length (nets (def (vm example_world_off))).
            (\<exists>n. E_virSocketSendMsgWithFD i n \<in> set pre) \<and> E_virSocketRecvHttpResponse i \<in> set pre)
      \<and> E_close_socket \<in> set pre
      \<and> list_all (\<lambda>e. \<not> handoff_event e) post)"
proof -
  have h: "fst (virCHProcessStart env_start example_driver 1 example_world_off) = 0"
    by (simp add: virCHProcessStart_def Start_prepare_def Start_boot_def Start_cleanup_def
        Start_connect_monitor_def Start_machine_name_def Start_add_network_def
        chSetupCgroup_def chProcessAddNetworkDevices_def UNIX_PATH_MAX_def
        virCHProcessInitCpuAffinity_def virCHProcessGetAllCpuAffinity_def
        virDomainNumaGetNodeCount_def virDomainNumatuneGetMode_def
        virCHMonitorRefreshThreadInfo_def virCHProcessUpdateInfo_def
        virCHProcessUpdateStatus_def virCHProcessSetupThreads_def virDomainObjSetState_def
        seq_def try_call_def always_def neg_def report_def call_def set_priv_def set_def_def
        env_start_def example_world_off_def example_def_def example_monitor_def
        example_driver_def Let_def)
  from h C3_network_handoff_before_boot [OF h] show ?thesis
    by (rule conjI)
qed

subsection \<open>A failed Start and the stop that should follow\<close>

lemma virCHProcessStart_failure_paths:
  assumes "fst (virCHProcessStart env driver rsn w) \<noteq> 0"
  shows "(state (vm (snd (virCHProcessStart env driver rsn w))) = VIR_DOMAIN_SHUTOFF
          \<and> reason (vm (snd (virCHProcessStart env driver rsn w))) = VIR_DOMAIN_SHUTOFF_FAILED
          \<and> pid (vm (snd (virCHProcessStart env driver rsn w))) = - 1
          \<and> monitor (privateData (vm (snd (virCHProcessStart env driver rsn w)))) = None)
       \<or> (\<exists>w1. Start_prepare env w = (False, w1)
              \<and> ret_int env (trace w1 @ [E_chInterfaceStartDevices]) < 0
              \<and> virCHProcessStart env driver rsn w = (- 1, call E_chInterfaceStartDevices w1))"
  using assms
  by (auto simp: virCHProcessStart_def Start_cleanup_def virCHProcessStop_vm try_call_def Let_def
      split: prod.splits bool.splits if_splits)

text \<open>
  C1, at the step that brings the host-side network devices up. In an environment where
  every earlier step succeeds and \<open>chInterfaceStartDevices\<close> fails, \<open>virCHProcessStart\<close>
  returns -1 right after that call: the monitor is not closed, host devices are not
  released, the cgroup is not removed, the monitor connection and the process identifier
  stay in the domain object, and the reason "failed" is not recorded.
\<close>

theorem C1_start_netdev_failure_without_stop:
  "virCHProcessStart env_netdev_fails example_driver 1 example_world_off =
    (- 1,
     \<lparr>vm = \<lparr>pid = 4242,
             def = example_def\<lparr>def_id := 4242, nets := [\<lparr>queues = 1\<rparr>, \<lparr>queues = 2\<rparr>]\<rparr>,
             privateData =
               \<lparr>monitor = Some example_monitor,
                cgroup = Some \<lparr>controllers = [VIR_CGROUP_CONTROLLER_CPU, VIR_CGROUP_CONTROLLER_CPUSET]\<rparr>,
                autoCpuset = None, autoNodeset = None,
                machineName = Some ''ch-guest'', pidfile = None\<rparr>,
             state = VIR_DOMAIN_SHUTOFF, reason = 0\<rparr>,
      trace =
        [E_chHostdevPrepareDomainDevices, E_virCHMonitorNew, E_virCHMonitorCreateVM,
         E_virCHDomainGetMachineName, E_socket, E_connect ''/run/ch/guest.sock'',
         E_virCHMonitorBuildNetJson 0, E_virSocketSendMsgWithFD 0 1, E_close_fds 0 1,
         E_virSocketRecvHttpResponse 0, E_virCHMonitorBuildNetJson 1,
         E_virSocketSendMsgWithFD 1 2, E_close_fds 1 2, E_virSocketRecvHttpResponse 1,
         E_close_socket, E_chSetupCgroup, E_virHostCPUHasBitmap, E_virHostCPUGetOnlineBitmap,
         E_virProcessSetAffinity 4242 {0, 1, 2, 3}, E_chInterfaceStartDevices]\<rparr>)"
  by (simp add: virCHProcessStart_def Start_prepare_def Start_cleanup_def
      Start_connect_monitor_def Start_machine_name_def Start_add_network_def
      chSetupCgroup_def chProcessAddNetworkDevices_def UNIX_PATH_MAX_def
      virCHProcessInitCpuAffinity_def virCHProcessGetAllCpuAffinity_def
      virDomainNumaGetNodeCount_def virDomainNumatuneGetMode_def
      seq_def try_call_def always_def neg_def report_def call_def set_priv_def set_def_def
      env_netdev_fails_def env_start_def example_world_off_def example_def_def
      example_monitor_def example_driver_def Let_def)


subsection \<open>The CPU mask that a placement uses\<close>

lemma no_affinityI: "\<not> affinity_event e \<Longrightarrow> no_affinity e"
  by (simp add: no_affinity_def)

lemma filter_no_affinity: "list_all no_affinity xs \<Longrightarrow> filter affinity_event xs = []"
  by (induction xs) (auto simp: no_affinity_def)

lemma GetAllCpuAffinity_no_affinity:
  "virCHProcessGetAllCpuAffinity env w = (r, m, w') \<Longrightarrow> extends no_affinity w w'"
  by (auto simp: virCHProcessGetAllCpuAffinity_def Let_def extends_def no_affinityI
       split: if_splits option.splits)

lemma infer_cpumask_no_affinity:
  "SetupPid_infer_cpumask env cpumask_arg w = (failed, use, host, w') \<Longrightarrow> extends no_affinity w w'"
  by (auto simp: SetupPid_infer_cpumask_def extends_refl
      split: option.splits if_splits prod.splits dest: GetAllCpuAffinity_no_affinity)

lemma cgroup_settings_no_affinity:
  "keeps no_affinity (SetupPid_cgroup_settings env tid nameval idx use mm p q)"
proof (rule keepsI)
  fix w r w'
  assume a: "SetupPid_cgroup_settings env tid nameval idx use mm p q w = (r, w')"
  have "keeps no_affinity
     (seq (if virCgroupHasController (cgroup (privateData (vm w))) VIR_CGROUP_CONTROLLER_CPUSET
           then seq (case use of
                       Some m \<Rightarrow> try_call env (E_chSetupCgroupCpusetCpus nameval idx m)
                     | None \<Rightarrow> skip)
                    (case mm of
                       Some s \<Rightarrow> try_call env (E_virCgroupSetCpusetMems nameval idx s)
                     | None \<Rightarrow> skip)
           else skip)
     (seq (if p \<noteq> 0 \<or> q \<noteq> 0
           then try_call env (E_chSetupCgroupVcpuBW nameval idx p q)
           else skip)
          (try_call env (E_virCgroupAddThread nameval idx tid))))"
    by (intro keeps_seq keeps_if keeps_skip keeps_try_call)
       (auto simp: no_affinityI intro: keeps_try_call keeps_skip split: option.splits)
  then show "extends no_affinity w w'"
    using a unfolding SetupPid_cgroup_settings_def by (rule keepsD)
qed

lemma SetupPid_cgroup_no_affinity:
  "SetupPid_cgroup env tid nameval idx use p q w = (failed, created, w') \<Longrightarrow> extends no_affinity w w'"
  by (auto simp: SetupPid_cgroup_def Let_def try_call_def extends_def no_affinityI
        split: if_splits prod.splits bool.splits
        dest!: keepsD [OF cgroup_settings_no_affinity])

lemma SetupPid_cleanup_no_affinity:
  "SetupPid_cleanup nameval idx created ret w0 = (r, w') \<Longrightarrow> r = ret \<and> extends no_affinity w0 w'"
  by (auto simp: SetupPid_cleanup_def no_affinityI extends_def split: if_splits)

lemma SetupPid_affinity_sched_ok:
  "SetupPid_affinity_sched env tid nameval aff sched w = (False, w') \<Longrightarrow>
     \<exists>c. trace w' = trace w @ c
       \<and> filter affinity_event c =
           (case aff of Some m \<Rightarrow> [E_virProcessSetAffinity tid m] | None \<Rightarrow> [])"
  by (auto simp: SetupPid_affinity_sched_def seq_def try_call_def skip_def Let_def
      split: option.splits prod.splits bool.splits if_splits)

lemma SetupPid_infer_cpumask_precedence:
  "SetupPid_infer_cpumask env cpumask_arg w = (False, use, host, w1) \<Longrightarrow>
     (case host of None \<Rightarrow> use | Some m \<Rightarrow> Some m) = placement_cpumask env cpumask_arg w"
  by (auto simp: SetupPid_infer_cpumask_def placement_cpumask_def
      virCHProcessGetAllCpuAffinity_def Let_def
      split: option.splits if_splits prod.splits)

lemma virCHProcessSetupPid_ok:
  assumes "fst (virCHProcessSetupPid env tid nameval idx cpumask_arg p q sched w) = 0"
  shows "\<exists>use host w1 created w2 w3.
      SetupPid_infer_cpumask env cpumask_arg w = (False, use, host, w1)
      \<and> SetupPid_cgroup env tid nameval idx use p q w1 = (False, created, w2)
      \<and> SetupPid_affinity_sched env tid nameval
           (case host of None \<Rightarrow> use | Some m \<Rightarrow> Some m) sched w2 = (False, w3)
      \<and> virCHProcessSetupPid env tid nameval idx cpumask_arg p q sched w
           = SetupPid_cleanup nameval idx created 0 w3"
  using assms
  by (auto simp: virCHProcessSetupPid_def SetupPid_cleanup_def
      split: if_splits prod.splits bool.splits)

text \<open>
  C7, as the code has it. The mask that a placement hands to \<open>virProcessSetAffinity\<close> is
  chosen in this order: the explicit mask argument; otherwise, when the CPU placement
  mode of the domain is "auto", the automatically computed mask \<open>priv->autoCpuset\<close> (no
  mask when that is unset); otherwise the domain-wide mask; otherwise all online host
  CPUs. The NUMA node count and the memory mode are not consulted. Lines 163-176 with
  217-218 compute this mask, and a call of \<open>virCHProcessSetupPid\<close> that returns 0 has
  made exactly one affinity call, with this mask, or none when there is no mask.
\<close>

theorem C7_cpumask_precedence:
  "(\<forall>use host w1. SetupPid_infer_cpumask env cpumask_arg w = (False, use, host, w1) \<longrightarrow>
      (case host of None \<Rightarrow> use | Some m \<Rightarrow> Some m) = placement_cpumask env cpumask_arg w)
   \<and> (fst (virCHProcessSetupPid env tid nameval idx cpumask_arg p q sched w) = 0 \<longrightarrow>
      filter affinity_event
        (drop (length (trace w))
           (trace (snd (virCHProcessSetupPid env tid nameval idx cpumask_arg p q sched w))))
      = (case placement_cpumask env cpumask_arg w of
           Some m \<Rightarrow> [E_virProcessSetAffinity tid m]
         | None \<Rightarrow> []))"
proof (intro conjI allI impI)
  fix use host w1
  assume "SetupPid_infer_cpumask env cpumask_arg w = (False, use, host, w1)"
  then show "(case host of None \<Rightarrow> use | Some m \<Rightarrow> Some m) = placement_cpumask env cpumask_arg w"
    by (rule SetupPid_infer_cpumask_precedence)
next
  assume ok: "fst (virCHProcessSetupPid env tid nameval idx cpumask_arg p q sched w) = 0"
  from virCHProcessSetupPid_ok [OF ok] obtain use host w1 created w2 w3 where
    i: "SetupPid_infer_cpumask env cpumask_arg w = (False, use, host, w1)"
    and c: "SetupPid_cgroup env tid nameval idx use p q w1 = (False, created, w2)"
    and s: "SetupPid_affinity_sched env tid nameval
           (case host of None \<Rightarrow> use | Some m \<Rightarrow> Some m) sched w2 = (False, w3)"
    and r: "virCHProcessSetupPid env tid nameval idx cpumask_arg p q sched w
           = SetupPid_cleanup nameval idx created 0 w3"
    by blast
  from infer_cpumask_no_affinity [OF i] obtain a where
    a: "trace w1 = trace w @ a" "list_all no_affinity a"
    by (auto simp: extends_def)
  from SetupPid_cgroup_no_affinity [OF c] obtain b where
    b: "trace w2 = trace w1 @ b" "list_all no_affinity b"
    by (auto simp: extends_def)
  from SetupPid_affinity_sched_ok [OF s] obtain cc where
    cc: "trace w3 = trace w2 @ cc"
      "filter affinity_event cc =
         (case (case host of None \<Rightarrow> use | Some m \<Rightarrow> Some m) of
            Some m \<Rightarrow> [E_virProcessSetAffinity tid m] | None \<Rightarrow> [])"
    by blast
  obtain rr wf where wf: "SetupPid_cleanup nameval idx created 0 w3 = (rr, wf)"
    by (cases "SetupPid_cleanup nameval idx created 0 w3") auto
  from SetupPid_cleanup_no_affinity [OF wf] obtain d where
    d: "trace wf = trace w3 @ d" "list_all no_affinity d"
    by (auto simp: extends_def)
  have "trace (snd (virCHProcessSetupPid env tid nameval idx cpumask_arg p q sched w))
      = trace w @ a @ b @ cc @ d"
    by (simp add: r wf d(1) cc(1) b(1) a(1))
  then show "filter affinity_event
        (drop (length (trace w))
           (trace (snd (virCHProcessSetupPid env tid nameval idx cpumask_arg p q sched w))))
      = (case placement_cpumask env cpumask_arg w of
           Some m \<Rightarrow> [E_virProcessSetAffinity tid m]
         | None \<Rightarrow> [])"
    using filter_no_affinity [OF a(2)] filter_no_affinity [OF b(2)] filter_no_affinity [OF d(2)]
      cc(2) SetupPid_infer_cpumask_precedence [OF i]
    by simp
qed


theorem C7_cpumask_precedence_witness:
  "fst (virCHProcessSetupPid env_quiet 77 VIR_CGROUP_THREAD_VCPU 0 None 0 0 None example_world_numa) = 0
   \<and> SetupPid_infer_cpumask env_quiet None example_world_numa
       = (False, Some {0, 1, 2, 3}, None, example_world_numa)
   \<and> placement_cpumask env_quiet None example_world_numa = Some {0, 1, 2, 3}
   \<and> filter affinity_event
        (drop (length (trace example_world_numa))
           (trace (snd (virCHProcessSetupPid env_quiet 77 VIR_CGROUP_THREAD_VCPU 0 None 0 0 None
                          example_world_numa))))
       = [E_virProcessSetAffinity 77 {0, 1, 2, 3}]"
proof -
  note defs = virCHProcessSetupPid_def SetupPid_infer_cpumask_def SetupPid_cgroup_def
    SetupPid_cgroup_settings_def SetupPid_affinity_sched_def SetupPid_cleanup_def
    virCgroupHasController_def virDomainNumatuneGetMode_def seq_def try_call_def skip_def
    call_def env_quiet_def example_world_numa_def example_world_def example_vm_def
    example_def_def Let_def
  have ok: "fst (virCHProcessSetupPid env_quiet 77 VIR_CGROUP_THREAD_VCPU 0 None 0 0 None
      example_world_numa) = 0"
    by (simp add: defs)
  have i: "SetupPid_infer_cpumask env_quiet None example_world_numa
       = (False, Some {0, 1, 2, 3}, None, example_world_numa)"
    by (simp add: defs)
  have m: "placement_cpumask env_quiet None example_world_numa = Some {0, 1, 2, 3}"
    by (simp add: placement_cpumask_def defs)
  show ?thesis
    using C7_cpumask_precedence
      [of env_quiet None example_world_numa 77 VIR_CGROUP_THREAD_VCPU 0 0 0 None] ok i m
    by simp
qed

text \<open>
  C7, as the claim words it, fails. The example domain has a single NUMA node with strict
  memory binding and an automatically computed CPU set {4, 5}, but static CPU placement
  and the domain-wide mask {0, 1, 2, 3}. With no explicit mask, the claim's precedence
  gives {4, 5}; the code restricts the cpuset and sets the affinity to {0, 1, 2, 3}.
\<close>

theorem C7_numa_condition_counterexample:
  "spec_effective_cpumask None (vm example_world_numa) None = Some {4, 5}
   \<and> virCHProcessSetupPid env_quiet 77 VIR_CGROUP_THREAD_VCPU 0 None 0 0 None example_world_numa
       = (0, example_world_numa
              \<lparr>trace := [E_virDomainNumatuneMaybeFormatNodeset,
                         E_virCgroupNewThread VIR_CGROUP_THREAD_VCPU 0,
                         E_chSetupCgroupCpusetCpus VIR_CGROUP_THREAD_VCPU 0 {0, 1, 2, 3},
                         E_virCgroupAddThread VIR_CGROUP_THREAD_VCPU 0 77,
                         E_virProcessSetAffinity 77 {0, 1, 2, 3},
                         E_virCgroupFree VIR_CGROUP_THREAD_VCPU 0]\<rparr>)
   \<and> ({4, 5} :: nat set) \<noteq> {0, 1, 2, 3}"
proof -
  have "({4, 5} :: nat set) \<noteq> {0, 1, 2, 3}"
    by auto
  then show ?thesis
    by (simp add: spec_effective_cpumask_def virDomainNumaGetNodeCount_def
      virCHProcessSetupPid_def SetupPid_infer_cpumask_def SetupPid_cgroup_def
      SetupPid_cgroup_settings_def SetupPid_affinity_sched_def SetupPid_cleanup_def
      virCgroupHasController_def virDomainNumatuneGetMode_def seq_def try_call_def skip_def
      call_def env_quiet_def example_world_numa_def example_world_def example_vm_def
      example_def_def Let_def)
qed


subsection \<open>vCPU setup with and without vCPU thread ids\<close>























end
